theory Spec2Isabelle
  imports Main
begin

section \<open>Lambda import and upload commands\<close>

text \<open>
  A shallow embedding of the two Lambda commands of the toolkit: the import command
  (\<open>runImportLambda\<close>, \<open>downloadAndUnzipLambda\<close>, \<open>openLambdaFile\<close>,
  \<open>addLaunchConfigEntry\<close>, \<open>getLambdaFileNameFromHandler\<close>) and the upload command
  (\<open>runUploadLambdaWithSamBuild\<close>, \<open>zipAndUploadDirectory\<close>, \<open>uploadZipBuffer\<close>).

  JavaScript strings are modelled as \<open>string\<close>, one \<open>char\<close> per code unit. The
  non-null assertions of the source (\<open>configuration.Runtime!\<close>, \<open>configuration.Handler!\<close>,
  \<open>configuration.FunctionName!\<close>, \<open>configuration.FunctionArn!\<close>) are read as the source
  reads them: the fields are present.
\<close>

subsection \<open>Data\<close>

text \<open>
  Modelled from the spec: the enumeration \<open>RuntimeFamily\<close> is declared in
  \<open>lambda/models/samLambdaRuntime\<close>, which is not among the sources. The spec's data
  model gives it as \<open>{Python, NodeJS, Other}\<close>; \<open>Other\<close> stands for every family
  the \<open>switch\<close> of \<open>getLambdaFileNameFromHandler\<close> sends to its \<open>default\<close> branch.
  The classifier \<open>getFamily\<close> of the same module is a parameter of every function
  that calls it.
\<close>

datatype RuntimeFamily = Python | NodeJS | Other

text \<open>\<open>Lambda.FunctionConfiguration\<close>, the fields the commands read.\<close>

record FunctionConfiguration =
  FunctionName :: string
  FunctionArn :: string
  Runtime :: string
  Handler :: string

text \<open>
  What a \<open>throw\<close> carries: an \<open>Error\<close> with its message, or the module's own
  \<open>class ImportError extends Error\<close>, which is always constructed without a message.
  The \<open>instanceof ImportError\<close> test of the source is a match on the constructor.
\<close>

datatype exn = Error string | ImportError

subsection \<open>The handler-to-filename resolver\<close>

text \<open>
  \<open>_(s).split('.')\<close>: the segments of \<open>s\<close> between the separators, in order. The
  empty string has the one segment \<open>''''\<close>. (lodash caps the number of segments at
  \<open>2^32 - 1\<close>, more than a JavaScript string has code units.)
\<close>

fun js_split :: "char \<Rightarrow> string \<Rightarrow> string list" where
  "js_split sep [] = [[]]"
| "js_split sep (c # cs) =
     (if c = sep then [] # js_split sep cs
      else (case js_split sep cs of
              [] \<Rightarrow> [[c]]
            | seg # segs \<Rightarrow> (c # seg) # segs))"

text \<open>\<open>_.initial\<close>: all but the last element; the empty array stays empty.\<close>

definition initial :: "'a list \<Rightarrow> 'a list" where
  "initial xs = butlast xs"

text \<open>\<open>Array.prototype.join\<close>.\<close>

fun js_join :: "string \<Rightarrow> string list \<Rightarrow> string" where
  "js_join sep [] = []"
| "js_join sep [x] = x"
| "js_join sep (x # y # ys) = x @ sep @ js_join sep (y # ys)"

text \<open>
  \<open>getLambdaFileNameFromHandler\<close>. The \<open>throw\<close> of the \<open>default\<close> branch is the
  \<open>Inl\<close> result; the classifier \<open>getFamily\<close> is the first argument.
\<close>

definition getLambdaFileNameFromHandler ::
    "(string \<Rightarrow> RuntimeFamily) \<Rightarrow> FunctionConfiguration \<Rightarrow> exn + string" where
  "getLambdaFileNameFromHandler getFamily configuration =
     (case (case getFamily (Runtime configuration) of
              Python \<Rightarrow> Inr ''py''
            | NodeJS \<Rightarrow> Inr ''js''
            | Other \<Rightarrow>
                Inl (Error (''Toolkit does not currently support imports for runtime: ''
                            @ Runtime configuration))) of
        Inl e \<Rightarrow> Inl e
      | Inr runtimeExtension \<Rightarrow>
          (let fileName = js_join ''.'' (initial (js_split (CHR ''.'') (Handler configuration)))
           in Inr (fileName @ ''.'' @ runtimeExtension)))"

text \<open>
  A sample classifier, used only to run the functions on concrete inputs: it knows two
  runtime identifiers and sends every other one to \<open>Other\<close>.
\<close>

definition sampleFamily :: "string \<Rightarrow> RuntimeFamily" where
  "sampleFamily r =
     (if r = ''python3.8'' then Python else if r = ''nodejs12.x'' then NodeJS else Other)"

subsection \<open>Asynchronous code, effects and collaborators\<close>

text \<open>\<open>telemetry.Result\<close>, the values the two commands return.\<close>

datatype Result = Succeeded | Failed | Cancelled

text \<open>
  How the execution of an \<open>async\<close> function (or the promise an \<open>await\<close> waits for)
  ends: it returns a value, it throws (the promise is rejected), or it never settles.
  The last case is the one of a promise built by \<open>new Promise(resolve => ...)\<close> whose
  \<open>resolve\<close> is never called and whose executor did not throw: the \<open>await\<close> on it
  never resumes, so neither the rest of the \<open>try\<close> block nor its \<open>catch\<close> runs.
\<close>

datatype 'a outcome = Returns 'a | Throws exn | NeverSettles

text \<open>
  A user-facing or logged message: a plain string (\<open>err.message\<close>), a
  \<open>localize(key, default, args...)\<close> call, kept as its key and its arguments, or
  the arguments of a logger call that has more than one.
\<close>

datatype message = Plain string | Localized string "string list" | Formatted string "string list"

datatype level = Debug | Info | Warn | Err

text \<open>\<open>vscode.Uri\<close>: an object (its identity, which \<open>===\<close> compares) and its path.\<close>

record Uri =
  ref :: nat
  fsPath :: string

text \<open>The arguments of \<open>SamTemplateGenerator ... .generate(templatePath)\<close>.\<close>

record TemplateArgs =
  functionHandler :: string
  resourceName :: string
  runtime :: string
  codeUri :: string
  generatedPath :: string

text \<open>The arguments of \<open>new SamCliBuildInvocation({...})\<close> (the invoker apart).\<close>

record BuildArgs =
  buildDir :: string
  templatePath :: string
  skipPullImage :: bool
  useContainer :: bool
  baseDir :: string

text \<open>
  What a run does to the world outside, in the order it does it: each call of a
  collaborator is one entry, recorded when the call is made (whether or not it then
  fails). \<open>UncaughtException\<close> is an exception thrown by an event listener or a
  callback that the event loop runs: it reaches no \<open>catch\<close> of the code that
  registered the listener.
\<close>

datatype effect =
    Log level message
  | ShowErrorMessage message
  | ShowWarningMessage message
  | ShowConfirmationMessage message
  | ShowOpenDialog
  | PromptUserForLocation
  | AddFolderToWorkspace Uri
  | WithProgress message
  | ProgressReport int
  | MakeTemporaryToolkitFolder
  | AddDisposableFolder string
  | GetFunction string
  | RequestGet "string option"
  | CreateWriteStream string
  | NewAdmZip string
  | ExtractAllToAsync string string bool
  | UncaughtException exn
  | OpenTextDocument string
  | ShowTextDocument string
  | CreateCodeAwsSamDebugConfig string string string string
  | AddDebugConfiguration string string
  | GenerateTemplate TemplateArgs
  | SamCliBuild BuildArgs
  | AddLocalFolder string
  | UpdateFunctionCode string string

text \<open>
  The events the \<open>request\<close> object emits for one \<open>request.get\<close>, in order, or the
  exception \<open>request.get\<close> itself throws (no URL to fetch).
\<close>

datatype request_event = ResponseEvent | CompleteEvent | ErrorEvent string

datatype request_behaviour = RequestThrows string | RequestEmits "request_event list"

text \<open>
  What \<open>new AdmZip(file).extractAllToAsync(dir, true, callback)\<close> does: the constructor
  throws (the file is missing or is no archive), or the callback is called once, with
  an error or without one, either before \<open>extractAllToAsync\<close> returns or later, from
  the event loop.
\<close>

datatype callback_time = BeforeReturn | FromEventLoop

datatype extract_behaviour = ZipThrows string | ZipCallback callback_time "string option"

text \<open>
  The collaborators of one run: the functions and objects the commands import from the
  rest of the toolkit, from \<open>vscode\<close>, from Node and from the libraries, none of which
  is among the sources. Each field gives what the collaborator answers in this run; a
  call that can fail answers \<open>Inl msg\<close> when it throws (or rejects with)
  \<open>new Error(msg)\<close>. Collaborators cannot construct \<open>ImportError\<close>, which the
  module does not export. \<open>createLambdaClient\<close>, \<open>getLogger\<close>, \<open>localize\<close>, the
  \<open>path\<close> functions, \<open>getSamCliContext\<close> and the message and progress calls are
  taken not to throw.
\<close>

record world =
  getFamily :: "string \<Rightarrow> RuntimeFamily"
  path_join :: "string \<Rightarrow> string \<Rightarrow> string"
  path_sep :: string
  path_dirname :: "string \<Rightarrow> string"
  pathutils_normalize :: "string \<Rightarrow> string"
  workspaceFolders :: "Uri list"
  promptUserForLocation :: "Uri option"
  asRelativePath :: "string \<Rightarrow> string"
  pathExists :: "string \<Rightarrow> bool"
  fileExists :: "string \<Rightarrow> bool"
  showConfirmationMessage :: "message \<Rightarrow> bool"
  getWorkspaceFolder :: "string \<Rightarrow> string"
  makeTemporaryToolkitFolder :: "string + string"
  getFunction :: "string \<Rightarrow> string + string option"
  request_get :: "string option \<Rightarrow> request_behaviour"
  admZipExtract :: "string \<Rightarrow> string \<Rightarrow> extract_behaviour"
  openTextDocument :: "string \<Rightarrow> string + string"
  showTextDocument :: "string \<Rightarrow> string + unit"
  createCodeAwsSamDebugConfig :: "string \<Rightarrow> string \<Rightarrow> string \<Rightarrow> string \<Rightarrow> string + string"
  getReferencedHandlerPaths :: "string \<Rightarrow> string list"
  addDebugConfiguration :: "string \<Rightarrow> string \<Rightarrow> string + unit"
  showOpenDialog :: "Uri list option"
  generateTemplate :: "TemplateArgs \<Rightarrow> string + unit"
  samCliBuildExecute :: "BuildArgs \<Rightarrow> string + unit"
  zipLocalFolder :: "string \<Rightarrow> string + string"
  updateFunctionCode :: "string \<Rightarrow> string \<Rightarrow> string + unit"

text \<open>\<open>LambdaFunctionNode\<close>, the fields the commands read.\<close>

record LambdaFunctionNode =
  configuration :: FunctionConfiguration
  regionCode :: string
  functionName :: string

text \<open>A run: the effects so far, and how the execution ended.\<close>

type_synonym 'a run = "effect list \<times> 'a outcome"

definition returns :: "'a \<Rightarrow> 'a run" where
  "returns x = ([], Returns x)"

definition throws :: "exn \<Rightarrow> 'a run" where
  "throws e = ([], Throws e)"

definition emit :: "effect \<Rightarrow> unit run" where
  "emit e = ([e], Returns ())"

text \<open>Sequencing: the statements after \<open>m\<close> run only if \<open>m\<close> returns.\<close>

definition andThen :: "'a run \<Rightarrow> ('a \<Rightarrow> 'b run) \<Rightarrow> 'b run" where
  "andThen m f =
     (case m of
        (t, Returns x) \<Rightarrow> (case f x of (t', r) \<Rightarrow> (t @ t', r))
      | (t, Throws e) \<Rightarrow> (t, Throws e)
      | (t, NeverSettles) \<Rightarrow> (t, NeverSettles))"

text \<open>
  \<open>try { m } catch (e) { h e }\<close>: the handler runs only if \<open>m\<close> throws; a block
  that never settles never reaches it.
\<close>

definition tryCatch :: "'a run \<Rightarrow> (exn \<Rightarrow> 'a run) \<Rightarrow> 'a run" where
  "tryCatch m h =
     (case m of
        (t, Throws e) \<Rightarrow> (case h e of (t', r) \<Rightarrow> (t @ t', r))
      | (t, Returns x) \<Rightarrow> (t, Returns x)
      | (t, NeverSettles) \<Rightarrow> (t, NeverSettles))"

text \<open>A call of a collaborator: the call is recorded, then it answers or throws.\<close>

definition invoke :: "effect \<Rightarrow> string + 'a \<Rightarrow> 'a run" where
  "invoke e answer =
     ([e], case answer of Inl msg \<Rightarrow> Throws (Error msg) | Inr x \<Rightarrow> Returns x)"

text \<open>A synchronous function of the module that can throw.\<close>

definition lift :: "exn + 'a \<Rightarrow> 'a run" where
  "lift r = ([], case r of Inl e \<Rightarrow> Throws e | Inr x \<Rightarrow> Returns x)"

text \<open>\<open>err.message\<close>.\<close>

fun message_of :: "exn \<Rightarrow> string" where
  "message_of (Error msg) = msg"
| "message_of ImportError = []"

subsection \<open>The import command\<close>

text \<open>
  The listeners of the download (lines 149 to 161), run on the events of the request in
  order; the flag says whether \<open>resolve\<close> has been called. The \<open>complete\<close> listener
  calls \<open>resolve\<close>. The \<open>error\<close> listener throws: the exception goes to the event
  loop that emitted the event, and the promise, which has no \<open>reject\<close>, is left as it
  was. When the events are over, the \<open>await\<close> resumes if \<open>resolve\<close> was called and
  never otherwise.
\<close>

fun downloadListeners :: "request_event list \<Rightarrow> bool \<Rightarrow> unit run" where
  "downloadListeners [] resolved = ([], if resolved then Returns () else NeverSettles)"
| "downloadListeners (ResponseEvent # evs) resolved =
     andThen (emit (Log Debug (Plain ''Established Lambda download'')))
       (\<lambda>_. downloadListeners evs resolved)"
| "downloadListeners (CompleteEvent # evs) resolved =
     andThen (emit (Log Debug (Plain ''Lambda download complete'')))
       (\<lambda>_. downloadListeners evs True)"
| "downloadListeners (ErrorEvent msg # evs) resolved =
     andThen (emit (UncaughtException (Error msg)))
       (\<lambda>_. downloadListeners evs resolved)"

text \<open>
  The first \<open>await new Promise(resolve => ...)\<close> (lines 147 to 162). An exception
  thrown while the executor runs (by \<open>request.get\<close>) rejects the promise.
\<close>

definition downloadPromise :: "world \<Rightarrow> string option \<Rightarrow> string \<Rightarrow> unit run" where
  "downloadPromise w codeLocation downloadLocation =
     andThen (emit (Log Debug (Plain ''Starting Lambda download...''))) (\<lambda>_.
     andThen (emit (RequestGet codeLocation)) (\<lambda>_.
     (case request_get w codeLocation of
        RequestThrows msg \<Rightarrow> throws (Error msg)
      | RequestEmits evs \<Rightarrow>
          andThen (emit (CreateWriteStream downloadLocation)) (\<lambda>_.
          downloadListeners evs False))))"

text \<open>
  The second \<open>await new Promise(resolve => ...)\<close> (lines 166 to 174). The callback
  throws when it is given an error, and otherwise reports progress and calls
  \<open>resolve\<close>. A callback that throws before \<open>extractAllToAsync\<close> returns throws
  through the executor, which rejects the promise; one that throws later throws into
  the event loop, and the promise never settles.
\<close>

definition extractPromise :: "world \<Rightarrow> string \<Rightarrow> string \<Rightarrow> unit run" where
  "extractPromise w downloadLocation importLocation =
     andThen (emit (NewAdmZip downloadLocation)) (\<lambda>_.
     (case admZipExtract w downloadLocation importLocation of
        ZipThrows msg \<Rightarrow> throws (Error msg)
      | ZipCallback time err \<Rightarrow>
          andThen (emit (ExtractAllToAsync downloadLocation importLocation True)) (\<lambda>_.
          (case err of
             Some msg \<Rightarrow>
               (case time of
                  BeforeReturn \<Rightarrow> throws (Error msg)
                | FromEventLoop \<Rightarrow>
                    andThen (emit (UncaughtException (Error msg))) (\<lambda>_. ([], NeverSettles)))
           | None \<Rightarrow>
               andThen (emit (ProgressReport 10)) (\<lambda>_. returns ())))))"

text \<open>\<open>downloadAndUnzipLambda\<close> (lines 122 to 189).\<close>

definition downloadAndUnzipLambda :: "world \<Rightarrow> LambdaFunctionNode \<Rightarrow> string \<Rightarrow> unit run" where
  "downloadAndUnzipLambda w functionNode importLocation =
     (let functionArn = FunctionArn (configuration functionNode) in
      tryCatch
        (andThen (invoke MakeTemporaryToolkitFolder (makeTemporaryToolkitFolder w)) (\<lambda>tempFolder.
         andThen (emit (AddDisposableFolder tempFolder)) (\<lambda>_.
         (let downloadLocation = path_join w tempFolder ''function.zip'' in
          andThen (invoke (GetFunction functionArn) (getFunction w functionArn)) (\<lambda>codeLocation.
          andThen (emit (ProgressReport 10)) (\<lambda>_.
          andThen (downloadPromise w codeLocation downloadLocation) (\<lambda>_.
          andThen (emit (ProgressReport 70)) (\<lambda>_.
          extractPromise w downloadLocation importLocation))))))))
        (\<lambda>err.
          andThen (emit (Log Err (Plain (message_of err)))) (\<lambda>_.
          andThen (emit (ShowErrorMessage
                     (Localized ''AWS.lambda.import.importError''
                        [functionArn, message_of err]))) (\<lambda>_.
          throws ImportError))))"

text \<open>\<open>openLambdaFile\<close> (lines 191 to 205).\<close>

definition openLambdaFile :: "world \<Rightarrow> string \<Rightarrow> unit run" where
  "openLambdaFile w lambdaLocation =
     (if \<not> fileExists w lambdaLocation then
        (let warning = Localized ''AWS.lambda.import.fileNotFound'' [lambdaLocation] in
         andThen (emit (Log Warn warning)) (\<lambda>_.
         andThen (emit (ShowWarningMessage warning)) (\<lambda>_.
         throws (Error []))))
      else
        andThen (invoke (OpenTextDocument lambdaLocation) (openTextDocument w lambdaLocation))
          (\<lambda>doc. invoke (ShowTextDocument doc) (showTextDocument w doc)))"

text \<open>\<open>addLaunchConfigEntry\<close> (lines 207 to 229).\<close>

definition addLaunchConfigEntry ::
    "world \<Rightarrow> string \<Rightarrow> LambdaFunctionNode \<Rightarrow> string \<Rightarrow> unit run" where
  "addLaunchConfigEntry w lambdaLocation functionNode workspaceFolder =
     (let handler = Handler (configuration functionNode) in
      andThen (invoke (CreateCodeAwsSamDebugConfig workspaceFolder handler
                         (path_dirname w lambdaLocation) (Runtime (configuration functionNode)))
                 (createCodeAwsSamDebugConfig w workspaceFolder handler
                    (path_dirname w lambdaLocation) (Runtime (configuration functionNode))))
        (\<lambda>samDebugConfig.
          if pathutils_normalize w (path_join w (path_dirname w lambdaLocation) handler)
               \<notin> set (getReferencedHandlerPaths w lambdaLocation)
          then invoke (AddDebugConfiguration lambdaLocation samDebugConfig)
                 (addDebugConfiguration w lambdaLocation samDebugConfig)
          else returns ()))"

text \<open>
  The task \<open>runImportLambda\<close> passes to \<open>window.withProgress\<close> (lines 100 to 118).
  The file name is resolved before the \<open>try\<close> block is entered.
\<close>

definition importTask :: "world \<Rightarrow> LambdaFunctionNode \<Rightarrow> string \<Rightarrow> string \<Rightarrow> Result run" where
  "importTask w functionNode importLocation workspaceFolder =
     andThen (lift (getLambdaFileNameFromHandler (getFamily w) (configuration functionNode)))
       (\<lambda>fileName.
         (let lambdaLocation = path_join w importLocation fileName in
          tryCatch
            (andThen (downloadAndUnzipLambda w functionNode importLocation) (\<lambda>_.
             andThen (openLambdaFile w lambdaLocation) (\<lambda>_.
             andThen (addLaunchConfigEntry w lambdaLocation functionNode workspaceFolder) (\<lambda>_.
             returns Succeeded))))
            (\<lambda>e. case e of
                    ImportError \<Rightarrow> returns Failed
                  | Error _ \<Rightarrow> returns Succeeded)))"

text \<open>
  \<open>runImportLambda\<close> (lines 41 to 120). An early \<open>return\<close> inside the \<open>if\<close> block
  of the overwrite confirmation is the value \<open>Some\<close> of that block. The
  \<open>path.join\<close> of three segments is written as two joins, and \<open>===\<close> on two
  \<open>Uri\<close> objects compares their identities.
\<close>

definition runImportLambda :: "world \<Rightarrow> LambdaFunctionNode \<Rightarrow> Result run" where
  "runImportLambda w functionNode =
     (let functionName = FunctionName (configuration functionNode) in
      if length (workspaceFolders w) = 0 then
        andThen (emit (ShowErrorMessage (Localized ''AWS.lambda.import.noWorkspaceFolders'' [])))
          (\<lambda>_. returns Cancelled)
      else
        andThen (invoke PromptUserForLocation (Inr (promptUserForLocation w))) (\<lambda>selected.
        (case selected of
           None \<Rightarrow> returns Cancelled
         | Some selectedUri \<Rightarrow>
            (let importLocation =
                   path_join w (path_join w (fsPath selectedUri) functionName) (path_sep w);
                 importLocationName = asRelativePath w importLocation;
                 prompt = Localized ''AWS.lambda.import.prompt'' [functionName, importLocationName]
             in
             andThen
               (if pathExists w importLocation then
                  andThen (invoke (ShowConfirmationMessage prompt)
                             (Inr (showConfirmationMessage w prompt))) (\<lambda>isConfirmed.
                  if \<not> isConfirmed then
                    andThen (emit (Log Info (Plain ''ImportLambda cancelled'')))
                      (\<lambda>_. returns (Some Cancelled))
                  else returns None)
                else returns None)
               (\<lambda>early.
                 (case early of
                    Some result \<Rightarrow> returns result
                  | None \<Rightarrow>
                     andThen
                       (if length (filter (\<lambda>val. ref selectedUri = ref val) (workspaceFolders w)) = 0
                        then emit (AddFolderToWorkspace selectedUri)
                        else returns ()) (\<lambda>_.
                     (let workspaceFolder = getWorkspaceFolder w importLocation in
                      andThen (emit (WithProgress
                                 (Localized ''AWS.lambda.import.status''
                                    [functionName, importLocationName]))) (\<lambda>_.
                      importTask w functionNode importLocation workspaceFolder)))))))))"

subsection \<open>The upload command\<close>

text \<open>\<open>uploadZipBuffer\<close> (lines 255 to 272).\<close>

definition uploadZipBuffer :: "world \<Rightarrow> LambdaFunctionNode \<Rightarrow> string \<Rightarrow> Result run" where
  "uploadZipBuffer w functionNode zipContents =
     tryCatch
       (andThen (invoke (UpdateFunctionCode (FunctionName (configuration functionNode)) zipContents)
                   (updateFunctionCode w (FunctionName (configuration functionNode)) zipContents))
          (\<lambda>_. returns Succeeded))
       (\<lambda>err.
         andThen (emit (ShowErrorMessage (Plain (message_of err)))) (\<lambda>_.
         andThen (emit (Log Err (Formatted ''uploadZipBuffer failed: '' [message_of err]))) (\<lambda>_.
         returns Failed)))"

text \<open>
  \<open>zipAndUploadDirectory\<close> (lines 233 to 253): \<open>zipLocalFolder\<close> is
  \<open>zip.addLocalFolder(path)\<close> followed by \<open>zip.toBuffer()\<close>, which run inside the
  executor of the promise, so that an exception of theirs rejects it.
\<close>

definition zipAndUploadDirectory :: "world \<Rightarrow> LambdaFunctionNode \<Rightarrow> string \<Rightarrow> Result run" where
  "zipAndUploadDirectory w functionNode path =
     tryCatch
       (andThen (invoke (AddLocalFolder path) (zipLocalFolder w path))
          (\<lambda>zipBuffer. uploadZipBuffer w functionNode zipBuffer))
       (\<lambda>err.
         andThen (emit (ShowErrorMessage (Plain (message_of err)))) (\<lambda>_.
         andThen (emit (Log Err (Formatted ''zipAndUploadDirectory failed: '' [message_of err]))) (\<lambda>_.
         returns Failed)))"

text \<open>
  The handler check of \<open>runUploadLambdaWithSamBuild\<close> (the first \<open>try\<close> block, lines
  165 to 191). \<open>Some\<close> is the early \<open>return\<close> of the block.
\<close>

definition handlerPrompt :: "LambdaFunctionNode \<Rightarrow> string \<Rightarrow> message" where
  "handlerPrompt functionNode handlerFile =
     Localized ''AWS.lambda.upload.handlerNotFound''
       [Handler (configuration functionNode), handlerFile]"

definition handlerCheck :: "world \<Rightarrow> LambdaFunctionNode \<Rightarrow> Uri \<Rightarrow> Result option run" where
  "handlerCheck w functionNode parentDir =
     tryCatch
       (andThen (lift (getLambdaFileNameFromHandler (getFamily w) (configuration functionNode)))
          (\<lambda>fileName.
            (let handlerFile = path_join w (fsPath parentDir) fileName in
             if \<not> fileExists w handlerFile then
               andThen (invoke (ShowConfirmationMessage (handlerPrompt functionNode handlerFile))
                          (Inr (showConfirmationMessage w (handlerPrompt functionNode handlerFile))))
                 (\<lambda>isConfirmed.
                   if \<not> isConfirmed then
                     andThen (emit (Log Info (Plain
                        ''Handler file not found. Aborting runUploadLambdaWithSamBuild'')))
                       (\<lambda>_. returns (Some Cancelled))
                   else returns None)
             else returns None)))
       (\<lambda>e.
         andThen (emit (Log Info (Plain
            ''Attempting to build a runtime not supported by Toolkit. Ignoring handler check.'')))
           (\<lambda>_. returns None))"

text \<open>
  The build and the upload of \<open>runUploadLambdaWithSamBuild\<close> (the second \<open>try\<close>
  block, lines 193 to 231).
\<close>

definition buildAndUpload :: "world \<Rightarrow> LambdaFunctionNode \<Rightarrow> Uri \<Rightarrow> Result run" where
  "buildAndUpload w functionNode parentDir =
     tryCatch
       (andThen (invoke MakeTemporaryToolkitFolder (makeTemporaryToolkitFolder w)) (\<lambda>tempDir.
        andThen (emit (AddDisposableFolder tempDir)) (\<lambda>_.
        (let templatePath = path_join w tempDir ''template.yaml'';
             resourceName = ''tempResource'';
             template = \<lparr>functionHandler = Handler (configuration functionNode),
                         resourceName = resourceName,
                         runtime = Runtime (configuration functionNode),
                         codeUri = fsPath parentDir,
                         generatedPath = templatePath\<rparr>
         in
         andThen (invoke (GenerateTemplate template) (generateTemplate w template)) (\<lambda>_.
         (let buildDir = path_join w tempDir ''output'';
              build = \<lparr>buildDir = buildDir, templatePath = templatePath,
                       skipPullImage = True, useContainer = False,
                       baseDir = fsPath parentDir\<rparr>
          in
          andThen (invoke (SamCliBuild build) (samCliBuildExecute w build)) (\<lambda>_.
          zipAndUploadDirectory w functionNode (path_join w buildDir resourceName))))))))
       (\<lambda>err.
         andThen (emit (ShowErrorMessage (Plain (message_of err)))) (\<lambda>_.
         andThen (emit (Log Err (Formatted ''runUploadLambdaWithSamBuild failed: ''
                                   [message_of err]))) (\<lambda>_.
         returns Failed)))"

text \<open>\<open>runUploadLambdaWithSamBuild\<close> (lines 147 to 231).\<close>

definition runUploadLambdaWithSamBuild :: "world \<Rightarrow> LambdaFunctionNode \<Rightarrow> Result run" where
  "runUploadLambdaWithSamBuild w functionNode =
     andThen (invoke ShowOpenDialog (Inr (showOpenDialog w))) (\<lambda>parentDirArr.
     (case parentDirArr of
        None \<Rightarrow> returns Cancelled
      | Some [] \<Rightarrow> returns Cancelled
      | Some [parentDir] \<Rightarrow>
          andThen (handlerCheck w functionNode parentDir) (\<lambda>early.
          (case early of
             Some result \<Rightarrow> returns result
           | None \<Rightarrow> buildAndUpload w functionNode parentDir))
      | Some (_ # _ # _) \<Rightarrow> returns Cancelled))"

subsection \<open>Reading a trace\<close>

text \<open>The increments of the \<open>progress.report\<close> calls of a trace, in order.\<close>

fun increment_of :: "effect \<Rightarrow> int list" where
  "increment_of (ProgressReport n) = [n]"
| "increment_of _ = []"

definition progressIncrements :: "effect list \<Rightarrow> int list" where
  "progressIncrements t = concat (map increment_of t)"

text \<open>The progress shown after each report: the running sums of the increments.\<close>

fun cumulative :: "int \<Rightarrow> int list \<Rightarrow> int list" where
  "cumulative shown [] = []"
| "cumulative shown (n # ns) = (shown + n) # cumulative (shown + n) ns"

text \<open>The builds, the packed directories, the deployments and the prompts of a trace.\<close>

fun build_of :: "effect \<Rightarrow> BuildArgs list" where
  "build_of (SamCliBuild b) = [b]"
| "build_of _ = []"

definition builds :: "effect list \<Rightarrow> BuildArgs list" where
  "builds t = concat (map build_of t)"

fun template_of :: "effect \<Rightarrow> TemplateArgs list" where
  "template_of (GenerateTemplate g) = [g]"
| "template_of _ = []"

definition templates :: "effect list \<Rightarrow> TemplateArgs list" where
  "templates t = concat (map template_of t)"

fun packed_of :: "effect \<Rightarrow> string list" where
  "packed_of (AddLocalFolder p) = [p]"
| "packed_of _ = []"

definition packed :: "effect list \<Rightarrow> string list" where
  "packed t = concat (map packed_of t)"

fun deployment_of :: "effect \<Rightarrow> (string \<times> string) list" where
  "deployment_of (UpdateFunctionCode name zipContents) = [(name, zipContents)]"
| "deployment_of _ = []"

definition deployments :: "effect list \<Rightarrow> (string \<times> string) list" where
  "deployments t = concat (map deployment_of t)"

fun confirmation_of :: "effect \<Rightarrow> message list" where
  "confirmation_of (ShowConfirmationMessage m) = [m]"
| "confirmation_of _ = []"

definition confirmations :: "effect list \<Rightarrow> message list" where
  "confirmations t = concat (map confirmation_of t)"

fun is_build :: "effect \<Rightarrow> bool" where
  "is_build (SamCliBuild b) = True"
| "is_build _ = False"

text \<open>The part of a trace before the first build.\<close>

definition beforeBuild :: "effect list \<Rightarrow> effect list" where
  "beforeBuild t = takeWhile (\<lambda>e. \<not> is_build e) t"

subsection \<open>A sample world\<close>

text \<open>
  One concrete run, used to evaluate the commands: every collaborator succeeds, the
  download emits \<open>response\<close> and \<open>complete\<close>, and the archive is extracted.
\<close>

definition samplePathJoin :: "string \<Rightarrow> string \<Rightarrow> string" where
  "samplePathJoin a b =
     (if b = ''/'' then a @ b
      else if a \<noteq> [] \<and> last a = CHR ''/'' then a @ b
      else a @ ''/'' @ b)"

definition sampleNode :: LambdaFunctionNode where
  "sampleNode =
     \<lparr>configuration =
        \<lparr>FunctionName = ''fn1'', FunctionArn = ''arn:fn1'', Runtime = ''python3.8'',
         Handler = ''app.handler''\<rparr>,
      regionCode = ''us-west-2'', functionName = ''fn1''\<rparr>"

definition sampleWorld :: world where
  "sampleWorld =
     \<lparr>getFamily = sampleFamily,
      path_join = samplePathJoin,
      path_sep = ''/'',
      path_dirname = (\<lambda>p. js_join ''/'' (initial (js_split (CHR ''/'') p))),
      pathutils_normalize = (\<lambda>p. p),
      workspaceFolders = [\<lparr>ref = 1, fsPath = ''/ws''\<rparr>],
      promptUserForLocation = Some \<lparr>ref = 1, fsPath = ''/ws''\<rparr>,
      asRelativePath = (\<lambda>p. p),
      pathExists = (\<lambda>p. False),
      fileExists = (\<lambda>p. True),
      showConfirmationMessage = (\<lambda>m. True),
      getWorkspaceFolder = (\<lambda>p. ''ws''),
      makeTemporaryToolkitFolder = Inr ''/tmp/tk'',
      getFunction = (\<lambda>arn. Inr (Some ''https://code'')),
      request_get = (\<lambda>url. RequestEmits [ResponseEvent, CompleteEvent]),
      admZipExtract = (\<lambda>file dir. ZipCallback FromEventLoop None),
      openTextDocument = (\<lambda>p. Inr p),
      showTextDocument = (\<lambda>doc. Inr ()),
      createCodeAwsSamDebugConfig = (\<lambda>folder handler dir rt. Inr handler),
      getReferencedHandlerPaths = (\<lambda>p. []),
      addDebugConfiguration = (\<lambda>p config. Inr ()),
      showOpenDialog = Some [\<lparr>ref = 2, fsPath = ''/src''\<rparr>],
      generateTemplate = (\<lambda>g. Inr ()),
      samCliBuildExecute = (\<lambda>b. Inr ()),
      zipLocalFolder = (\<lambda>p. Inr ''PK''),
      updateFunctionCode = (\<lambda>name zipContents. Inr ())\<rparr>"

subsection \<open>The template and the build of a run\<close>

text \<open>
  The arguments \<open>runUploadLambdaWithSamBuild\<close> gives to the template generator and to
  the build when the temporary folder is \<open>tempDir\<close>, named for use in the facts below.
\<close>

definition buildOf :: "world \<Rightarrow> Uri \<Rightarrow> string \<Rightarrow> BuildArgs" where
  "buildOf w parentDir tempDir =
     \<lparr>buildDir = path_join w tempDir ''output'',
      templatePath = path_join w tempDir ''template.yaml'',
      skipPullImage = True, useContainer = False, baseDir = fsPath parentDir\<rparr>"

definition templateOf :: "world \<Rightarrow> LambdaFunctionNode \<Rightarrow> Uri \<Rightarrow> string \<Rightarrow> TemplateArgs" where
  "templateOf w functionNode parentDir tempDir =
     \<lparr>functionHandler = Handler (configuration functionNode),
      resourceName = ''tempResource'',
      runtime = Runtime (configuration functionNode),
      codeUri = fsPath parentDir,
      generatedPath = path_join w tempDir ''template.yaml''\<rparr>"

section \<open>Facts\<close>

subsection \<open>Facts about splitting and joining\<close>

lemma js_split_not_Nil: "js_split sep s \<noteq> []"
  by (induction s) (auto split: list.splits)

lemma js_join_js_split: "js_join [sep] (js_split sep s) = s"
proof (induction s)
  case Nil
  show ?case by simp
next
  case (Cons c cs)
  obtain seg segs where segs: "js_split sep cs = seg # segs"
    using js_split_not_Nil [of sep cs] by (cases "js_split sep cs") auto
  show ?case
  proof (cases "c = sep")
    case True
    with Cons segs show ?thesis by simp
  next
    case False
    with Cons segs show ?thesis by (cases segs) auto
  qed
qed

lemma js_split_segments: "seg \<in> set (js_split sep s) \<Longrightarrow> sep \<notin> set seg"
proof (induction s arbitrary: seg)
  case Nil
  then show ?case by simp
next
  case (Cons c cs)
  then show ?case
    by (cases "js_split sep cs") (auto split: if_splits)
qed

lemma js_split_single: "sep \<notin> set s \<Longrightarrow> js_split sep s = [s]"
  by (induction s) auto

lemma js_split_many: "sep \<in> set s \<Longrightarrow> 2 \<le> length (js_split sep s)"
proof (induction s)
  case Nil
  then show ?case by simp
next
  case (Cons c cs)
  show ?case
  proof (cases "c = sep")
    case True
    then show ?thesis
      using js_split_not_Nil [of sep cs] by (cases "js_split sep cs") auto
  next
    case False
    with Cons show ?thesis by (cases "js_split sep cs") auto
  qed
qed

lemma js_join_snoc:
  "xs \<noteq> [] \<Longrightarrow> js_join sep (xs @ [x]) = js_join sep xs @ sep @ x"
  by (induction sep xs rule: js_join.induct) auto

text \<open>
  A string with a separator in it is the join of all its segments but the last, then
  the separator, then the last segment; and the last segment has no separator.
\<close>

lemma js_split_last_segment:
  assumes "sep \<in> set s"
  shows "s = js_join [sep] (initial (js_split sep s)) @ [sep] @ last (js_split sep s)
         \<and> sep \<notin> set (last (js_split sep s))"
proof -
  let ?segs = "js_split sep s"
  have ne: "?segs \<noteq> []" by (rule js_split_not_Nil)
  have two: "2 \<le> length ?segs" using assms by (rule js_split_many)
  then have init: "butlast ?segs \<noteq> []"
    by (cases ?segs) (auto split: if_splits)
  have "s = js_join [sep] (butlast ?segs @ [last ?segs])"
    using ne by (simp add: js_join_js_split)
  also have "\<dots> = js_join [sep] (butlast ?segs) @ [sep] @ last ?segs"
    using init by (rule js_join_snoc)
  finally have "s = js_join [sep] (initial ?segs) @ [sep] @ last ?segs"
    by (simp add: initial_def)
  moreover have "sep \<notin> set (last ?segs)"
    using ne by (intro js_split_segments [of _ sep s]) simp
  ultimately show ?thesis by blast
qed

text \<open>
  The split at the last separator is unique: it is fixed by the requirement that the
  part after it has no separator.
\<close>

lemma last_segment_unique:
  assumes "b @ [sep] @ s = b' @ [sep] @ s'" and "sep \<notin> set s" and "sep \<notin> set s'"
  shows "b = b' \<and> s = s'"
proof -
  have "takeWhile (\<lambda>c. c \<noteq> sep) (rev (b @ [sep] @ s)) = rev s"
    using assms(2) by (auto simp: takeWhile_tail)
  moreover have "takeWhile (\<lambda>c. c \<noteq> sep) (rev (b' @ [sep] @ s')) = rev s'"
    using assms(3) by (auto simp: takeWhile_tail)
  ultimately have "s = s'" using assms(1) by (metis rev_is_rev_conv)
  with assms(1) show ?thesis by simp
qed

subsection \<open>Facts about runs\<close>

lemma fst_andThen:
  "fst (andThen m f) = fst m @ (case snd m of Returns x \<Rightarrow> fst (f x) | _ \<Rightarrow> [])"
  by (cases m; cases "snd m") (auto simp: andThen_def split: prod.splits)

lemma snd_andThen:
  "snd (andThen m f) =
     (case snd m of Returns x \<Rightarrow> snd (f x) | Throws e \<Rightarrow> Throws e
      | NeverSettles \<Rightarrow> NeverSettles)"
  by (cases m; cases "snd m") (auto simp: andThen_def split: prod.splits)

lemma fst_tryCatch:
  "fst (tryCatch m h) = fst m @ (case snd m of Throws e \<Rightarrow> fst (h e) | _ \<Rightarrow> [])"
  by (cases m; cases "snd m") (auto simp: tryCatch_def split: prod.splits)

lemma snd_tryCatch:
  "snd (tryCatch m h) =
     (case snd m of Throws e \<Rightarrow> snd (h e) | Returns x \<Rightarrow> Returns x
      | NeverSettles \<Rightarrow> NeverSettles)"
  by (cases m; cases "snd m") (auto simp: tryCatch_def split: prod.splits)

lemma run_simps [simp]:
  "fst (returns x) = []" "snd (returns x) = Returns x"
  "fst (throws e) = []" "snd (throws e) = Throws e"
  "fst (emit ef) = [ef]" "snd (emit ef) = Returns ()"
  "fst (invoke ef a) = [ef]"
  "snd (invoke ef a) = (case a of Inl msg \<Rightarrow> Throws (Error msg) | Inr x \<Rightarrow> Returns x)"
  "fst (lift r) = []"
  "snd (lift r) = (case r of Inl e \<Rightarrow> Throws e | Inr x \<Rightarrow> Returns x)"
  by (simp_all add: returns_def throws_def emit_def invoke_def lift_def)

lemma progressIncrements_simps [simp]:
  "progressIncrements [] = []"
  "progressIncrements (e # t) = increment_of e @ progressIncrements t"
  "progressIncrements (t @ t') = progressIncrements t @ progressIncrements t'"
  by (simp_all add: progressIncrements_def)

lemma downloadListeners_increments:
  "progressIncrements (fst (downloadListeners evs resolved)) = []"
  by (induction evs resolved rule: downloadListeners.induct) (simp_all add: fst_andThen)

lemma downloadPromise_increments:
  "progressIncrements (fst (downloadPromise w codeLocation downloadLocation)) = []"
  by (simp add: downloadPromise_def fst_andThen downloadListeners_increments
      split: request_behaviour.splits outcome.splits)

lemma extractPromise_increments:
  "progressIncrements (fst (extractPromise w downloadLocation importLocation)) = [] \<or>
   progressIncrements (fst (extractPromise w downloadLocation importLocation)) = [10]"
  by (simp add: extractPromise_def fst_andThen
      split: extract_behaviour.splits option.splits callback_time.splits outcome.splits)

lemma downloadAndUnzipLambda_increments:
  "progressIncrements (fst (downloadAndUnzipLambda w functionNode importLocation))
     \<in> {[], [10], [10, 70], [10, 70, 10]}"
  using extractPromise_increments [of w "path_join w (projr (makeTemporaryToolkitFolder w)) ''function.zip''" importLocation]
  by (auto simp add: downloadAndUnzipLambda_def Let_def fst_andThen fst_tryCatch snd_andThen
      downloadPromise_increments
      split: outcome.splits sum.splits)

subsection \<open>Facts about the import command\<close>

text \<open>Only \<open>downloadAndUnzipLambda\<close> reports progress.\<close>

lemma openLambdaFile_increments:
  "progressIncrements (fst (openLambdaFile w lambdaLocation)) = []"
  by (simp add: openLambdaFile_def Let_def fst_andThen split: outcome.splits sum.splits)

lemma addLaunchConfigEntry_increments:
  "progressIncrements (fst (addLaunchConfigEntry w lambdaLocation functionNode workspaceFolder)) = []"
  by (simp add: addLaunchConfigEntry_def Let_def fst_andThen split: outcome.splits sum.splits)

lemma importTask_increments:
  "progressIncrements (fst (importTask w functionNode importLocation workspaceFolder))
     \<in> {[], [10], [10, 70], [10, 70, 10]}"
  using downloadAndUnzipLambda_increments [of w functionNode importLocation]
  by (auto simp add: importTask_def Let_def fst_andThen fst_tryCatch snd_andThen
      openLambdaFile_increments addLaunchConfigEntry_increments
      split: outcome.splits sum.splits exn.splits)

lemma runImportLambda_increments:
  "progressIncrements (fst (runImportLambda w functionNode))
     \<in> {[], [10], [10, 70], [10, 70, 10]}"
proof (cases "promptUserForLocation w")
  case None
  then show ?thesis
    by (simp add: runImportLambda_def Let_def fst_andThen)
next
  case (Some selectedUri)
  let ?loc = "path_join w (path_join w (fsPath selectedUri)
                 (FunctionName (configuration functionNode))) (path_sep w)"
  show ?thesis
    using Some importTask_increments [of w functionNode ?loc "getWorkspaceFolder w ?loc"]
    by (auto simp add: runImportLambda_def Let_def fst_andThen snd_andThen
        split: outcome.splits option.splits)
qed

text \<open>
  \<open>downloadAndUnzipLambda\<close> returns, throws \<open>ImportError\<close>, or never settles; its
  \<open>catch\<close> block turns every exception into \<open>ImportError\<close>. The two steps after it
  return or throw a plain \<open>Error\<close>.
\<close>

lemma downloadAndUnzipLambda_outcome:
  "snd (downloadAndUnzipLambda w functionNode importLocation)
     \<in> {Returns (), Throws ImportError, NeverSettles}"
  by (auto simp add: downloadAndUnzipLambda_def Let_def snd_andThen snd_tryCatch
      split: outcome.splits sum.splits)

lemma openLambdaFile_outcome:
  "snd (openLambdaFile w lambdaLocation) = Returns () \<or>
   (\<exists>msg. snd (openLambdaFile w lambdaLocation) = Throws (Error msg))"
  by (simp add: openLambdaFile_def Let_def snd_andThen split: outcome.splits sum.splits)

lemma addLaunchConfigEntry_outcome:
  "snd (addLaunchConfigEntry w lambdaLocation functionNode workspaceFolder) = Returns () \<or>
   (\<exists>msg. snd (addLaunchConfigEntry w lambdaLocation functionNode workspaceFolder)
            = Throws (Error msg))"
  by (simp add: addLaunchConfigEntry_def Let_def snd_andThen split: outcome.splits sum.splits)

text \<open>
  The failures of the download and of the extraction that reach the \<open>catch\<close> block:
  a collaborator that rejects, and an exception thrown while an executor runs.
\<close>

lemma downloadAndUnzipLambda_rejections:
  "makeTemporaryToolkitFolder w = Inl msg \<Longrightarrow>
     snd (downloadAndUnzipLambda w functionNode importLocation) = Throws ImportError"
  "makeTemporaryToolkitFolder w = Inr tempFolder \<Longrightarrow>
   getFunction w (FunctionArn (configuration functionNode)) = Inl msg \<Longrightarrow>
     snd (downloadAndUnzipLambda w functionNode importLocation) = Throws ImportError"
  "makeTemporaryToolkitFolder w = Inr tempFolder \<Longrightarrow>
   getFunction w (FunctionArn (configuration functionNode)) = Inr codeLocation \<Longrightarrow>
   request_get w codeLocation = RequestThrows msg \<Longrightarrow>
     snd (downloadAndUnzipLambda w functionNode importLocation) = Throws ImportError"
  by (simp_all add: downloadAndUnzipLambda_def downloadPromise_def Let_def
      snd_andThen snd_tryCatch)

text \<open>
  A download whose request emits no \<open>complete\<close> event never settles, whatever else
  the request emits.
\<close>

lemma downloadListeners_outcome:
  "snd (downloadListeners evs resolved) =
     (if resolved \<or> CompleteEvent \<in> set evs then Returns () else NeverSettles)"
  by (induction evs resolved rule: downloadListeners.induct) (simp_all add: snd_andThen)

lemma download_without_complete_never_settles:
  assumes "makeTemporaryToolkitFolder w = Inr tempFolder"
    and "getFunction w (FunctionArn (configuration functionNode)) = Inr codeLocation"
    and "request_get w codeLocation = RequestEmits evs"
    and "CompleteEvent \<notin> set evs"
  shows "snd (downloadAndUnzipLambda w functionNode importLocation) = NeverSettles"
  using assms
  by (simp add: downloadAndUnzipLambda_def downloadPromise_def Let_def
      snd_andThen snd_tryCatch downloadListeners_outcome)

text \<open>
  When \<open>downloadAndUnzipLambda\<close> does not return, the task does not return
  \<open>Succeeded\<close>; when it throws, the task returns \<open>Failed\<close>.
\<close>

lemma failed_import_never_succeeds:
  assumes "snd (downloadAndUnzipLambda w functionNode importLocation) \<noteq> Returns ()"
  shows "snd (importTask w functionNode importLocation workspaceFolder) \<noteq> Returns Succeeded"
  using assms downloadAndUnzipLambda_outcome [of w functionNode importLocation]
  by (auto simp add: importTask_def Let_def snd_andThen snd_tryCatch
      split: outcome.splits sum.splits)

lemma rejected_import_fails:
  assumes "getLambdaFileNameFromHandler (getFamily w) (configuration functionNode) = Inr fileName"
    and "snd (downloadAndUnzipLambda w functionNode importLocation) = Throws ImportError"
  shows "snd (importTask w functionNode importLocation workspaceFolder) = Returns Failed"
  using assms
  by (auto simp add: importTask_def Let_def snd_andThen snd_tryCatch
      split: outcome.splits sum.splits)

subsection \<open>Facts about the upload command\<close>

lemma builds_simps [simp]:
  "builds [] = []"
  "builds (e # t) = build_of e @ builds t"
  "builds (t @ t') = builds t @ builds t'"
  by (simp_all add: builds_def)

lemma templates_simps [simp]:
  "templates [] = []"
  "templates (e # t) = template_of e @ templates t"
  "templates (t @ t') = templates t @ templates t'"
  by (simp_all add: templates_def)

lemma packed_simps [simp]:
  "packed [] = []"
  "packed (e # t) = packed_of e @ packed t"
  "packed (t @ t') = packed t @ packed t'"
  by (simp_all add: packed_def)

lemma deployments_simps [simp]:
  "deployments [] = []"
  "deployments (e # t) = deployment_of e @ deployments t"
  "deployments (t @ t') = deployments t @ deployments t'"
  by (simp_all add: deployments_def)

lemma confirmations_simps [simp]:
  "confirmations [] = []"
  "confirmations (e # t) = confirmation_of e @ confirmations t"
  "confirmations (t @ t') = confirmations t @ confirmations t'"
  by (simp_all add: confirmations_def)

lemma confirmations_takeWhile:
  "confirmations t = [] \<Longrightarrow> confirmations (takeWhile P t) = []"
  by (induction t) (auto split: if_splits)

lemma beforeBuild_prefix:
  "builds pre = [] \<Longrightarrow> beforeBuild (pre @ t) = pre @ beforeBuild t"
proof (induction pre)
  case Nil
  show ?case by simp
next
  case (Cons e pre)
  then show ?case by (cases e) (auto simp: beforeBuild_def)
qed

text \<open>The upload functions catch everything: they return \<open>Succeeded\<close> or \<open>Failed\<close>.\<close>

lemma uploadZipBuffer_run:
  "uploadZipBuffer w functionNode zipContents =
     (case updateFunctionCode w (FunctionName (configuration functionNode)) zipContents of
        Inr u \<Rightarrow>
          ([UpdateFunctionCode (FunctionName (configuration functionNode)) zipContents],
           Returns Succeeded)
      | Inl msg \<Rightarrow>
          ([UpdateFunctionCode (FunctionName (configuration functionNode)) zipContents,
            ShowErrorMessage (Plain msg),
            Log Err (Formatted ''uploadZipBuffer failed: '' [msg])],
           Returns Failed))"
  by (simp add: uploadZipBuffer_def andThen_def tryCatch_def emit_def invoke_def returns_def
      split: sum.splits)

lemma zipAndUploadDirectory_run:
  "zipAndUploadDirectory w functionNode path =
     (case zipLocalFolder w path of
        Inr zipBuffer \<Rightarrow>
          (AddLocalFolder path # fst (uploadZipBuffer w functionNode zipBuffer),
           snd (uploadZipBuffer w functionNode zipBuffer))
      | Inl msg \<Rightarrow>
          ([AddLocalFolder path, ShowErrorMessage (Plain msg),
            Log Err (Formatted ''zipAndUploadDirectory failed: '' [msg])],
           Returns Failed))"
  by (simp add: zipAndUploadDirectory_def uploadZipBuffer_run andThen_def tryCatch_def emit_def
      invoke_def returns_def split: sum.splits)

lemma zipAndUploadDirectory_trace:
  "builds (fst (zipAndUploadDirectory w functionNode path)) = []"
  "templates (fst (zipAndUploadDirectory w functionNode path)) = []"
  "packed (fst (zipAndUploadDirectory w functionNode path)) = [path]"
  "confirmations (fst (zipAndUploadDirectory w functionNode path)) = []"
  by (simp_all add: zipAndUploadDirectory_run uploadZipBuffer_run split: sum.splits)

lemma zipAndUploadDirectory_outcome:
  "snd (zipAndUploadDirectory w functionNode path) = Returns Succeeded \<or>
   snd (zipAndUploadDirectory w functionNode path) = Returns Failed"
  by (simp add: zipAndUploadDirectory_run uploadZipBuffer_run split: sum.splits)

text \<open>The runs of the second \<open>try\<close> block, by the step that fails first.\<close>

lemma buildAndUpload_no_temp:
  assumes "makeTemporaryToolkitFolder w = Inl msg"
  shows "builds (fst (buildAndUpload w functionNode parentDir)) = []"
  using assms by (simp add: buildAndUpload_def Let_def fst_andThen fst_tryCatch snd_andThen)

lemma buildAndUpload_no_template:
  assumes "makeTemporaryToolkitFolder w = Inr tempDir"
    and "generateTemplate w (templateOf w functionNode parentDir tempDir) = Inl msg"
  shows "builds (fst (buildAndUpload w functionNode parentDir)) = []"
  using assms
  by (simp add: buildAndUpload_def templateOf_def Let_def fst_andThen fst_tryCatch snd_andThen)

lemma buildAndUpload_build_failed:
  assumes "makeTemporaryToolkitFolder w = Inr tempDir"
    and "generateTemplate w (templateOf w functionNode parentDir tempDir) = Inr u"
    and "samCliBuildExecute w (buildOf w parentDir tempDir) = Inl msg"
  shows "buildAndUpload w functionNode parentDir =
           ([MakeTemporaryToolkitFolder, AddDisposableFolder tempDir,
             GenerateTemplate (templateOf w functionNode parentDir tempDir),
             SamCliBuild (buildOf w parentDir tempDir),
             ShowErrorMessage (Plain msg),
             Log Err (Formatted ''runUploadLambdaWithSamBuild failed: '' [msg])],
            Returns Failed)"
  using assms
  by (simp add: buildAndUpload_def templateOf_def buildOf_def Let_def
      andThen_def tryCatch_def emit_def invoke_def returns_def)

lemma buildAndUpload_built:
  assumes "makeTemporaryToolkitFolder w = Inr tempDir"
    and "generateTemplate w (templateOf w functionNode parentDir tempDir) = Inr u"
    and "samCliBuildExecute w (buildOf w parentDir tempDir) = Inr u'"
  shows "buildAndUpload w functionNode parentDir =
           ([MakeTemporaryToolkitFolder, AddDisposableFolder tempDir,
             GenerateTemplate (templateOf w functionNode parentDir tempDir),
             SamCliBuild (buildOf w parentDir tempDir)]
            @ fst (zipAndUploadDirectory w functionNode
                     (path_join w (path_join w tempDir ''output'') ''tempResource'')),
            snd (zipAndUploadDirectory w functionNode
                   (path_join w (path_join w tempDir ''output'') ''tempResource'')))"
  using assms
    zipAndUploadDirectory_outcome [of w functionNode
      "path_join w (path_join w tempDir ''output'') ''tempResource''"]
  by (cases "zipAndUploadDirectory w functionNode
               (path_join w (path_join w tempDir ''output'') ''tempResource'')")
     (auto simp add: buildAndUpload_def templateOf_def buildOf_def Let_def
      andThen_def tryCatch_def emit_def invoke_def returns_def)

lemma buildAndUpload_builds:
  "builds (fst (buildAndUpload w functionNode parentDir)) = [] \<or>
   (\<exists>tempDir. makeTemporaryToolkitFolder w = Inr tempDir \<and>
      generateTemplate w (templateOf w functionNode parentDir tempDir) = Inr () \<and>
      builds (fst (buildAndUpload w functionNode parentDir)) = [buildOf w parentDir tempDir])"
proof (cases "makeTemporaryToolkitFolder w")
  case (Inl msg)
  then show ?thesis by (simp add: buildAndUpload_no_temp)
next
  case (Inr tempDir)
  show ?thesis
  proof (cases "generateTemplate w (templateOf w functionNode parentDir tempDir)")
    case (Inl msg)
    with Inr show ?thesis by (simp add: buildAndUpload_no_template)
  next
    case gen: (Inr u)
    show ?thesis
    proof (cases "samCliBuildExecute w (buildOf w parentDir tempDir)")
      case (Inl msg)
      from buildAndUpload_build_failed [OF Inr gen Inl] Inr gen show ?thesis by simp
    next
      case built: (Inr u')
      from buildAndUpload_built [OF Inr gen built] Inr gen show ?thesis
        by (simp add: zipAndUploadDirectory_trace)
    qed
  qed
qed

lemma buildAndUpload_confirmations:
  "confirmations (fst (buildAndUpload w functionNode parentDir)) = []"
proof (cases "makeTemporaryToolkitFolder w")
  case (Inl msg)
  then show ?thesis
    by (simp add: buildAndUpload_def Let_def fst_andThen fst_tryCatch snd_andThen)
next
  case (Inr tempDir)
  show ?thesis
  proof (cases "generateTemplate w (templateOf w functionNode parentDir tempDir)")
    case (Inl msg)
    with Inr show ?thesis
      by (simp add: buildAndUpload_def templateOf_def Let_def fst_andThen fst_tryCatch
          snd_andThen)
  next
    case gen: (Inr u)
    show ?thesis
    proof (cases "samCliBuildExecute w (buildOf w parentDir tempDir)")
      case (Inl msg)
      from buildAndUpload_build_failed [OF Inr gen Inl] show ?thesis by simp
    next
      case built: (Inr u')
      from buildAndUpload_built [OF Inr gen built] show ?thesis
        by (simp add: zipAndUploadDirectory_trace)
    qed
  qed
qed

lemma buildAndUpload_outcome:
  "snd (buildAndUpload w functionNode parentDir) = Returns Succeeded \<or>
   snd (buildAndUpload w functionNode parentDir) = Returns Failed"
proof (cases "makeTemporaryToolkitFolder w")
  case (Inl msg)
  then show ?thesis
    by (simp add: buildAndUpload_def Let_def snd_andThen snd_tryCatch)
next
  case (Inr tempDir)
  show ?thesis
  proof (cases "generateTemplate w (templateOf w functionNode parentDir tempDir)")
    case (Inl msg)
    with Inr show ?thesis
      by (simp add: buildAndUpload_def templateOf_def Let_def snd_andThen snd_tryCatch)
  next
    case gen: (Inr u)
    show ?thesis
    proof (cases "samCliBuildExecute w (buildOf w parentDir tempDir)")
      case (Inl msg)
      from buildAndUpload_build_failed [OF Inr gen Inl] show ?thesis by simp
    next
      case built: (Inr u')
      from buildAndUpload_built [OF Inr gen built] zipAndUploadDirectory_outcome show ?thesis
        by simp
    qed
  qed
qed

text \<open>The runs of the handler check.\<close>

lemma handlerCheck_unsupported:
  assumes "getLambdaFileNameFromHandler (getFamily w) (configuration functionNode) = Inl e"
  shows "handlerCheck w functionNode parentDir =
           ([Log Info (Plain
               ''Attempting to build a runtime not supported by Toolkit. Ignoring handler check.'')],
            Returns None)"
  using assms
  by (simp add: handlerCheck_def andThen_def tryCatch_def lift_def emit_def returns_def)

lemma handlerCheck_present:
  assumes "getLambdaFileNameFromHandler (getFamily w) (configuration functionNode) = Inr fileName"
    and "fileExists w (path_join w (fsPath parentDir) fileName)"
  shows "handlerCheck w functionNode parentDir = ([], Returns None)"
  using assms
  by (simp add: handlerCheck_def Let_def andThen_def tryCatch_def lift_def emit_def returns_def)

lemma handlerCheck_absent:
  assumes "getLambdaFileNameFromHandler (getFamily w) (configuration functionNode) = Inr fileName"
    and "\<not> fileExists w (path_join w (fsPath parentDir) fileName)"
  shows "handlerCheck w functionNode parentDir =
           (if showConfirmationMessage w
                 (handlerPrompt functionNode (path_join w (fsPath parentDir) fileName))
            then ([ShowConfirmationMessage
                     (handlerPrompt functionNode (path_join w (fsPath parentDir) fileName))],
                  Returns None)
            else ([ShowConfirmationMessage
                     (handlerPrompt functionNode (path_join w (fsPath parentDir) fileName)),
                   Log Info (Plain
                     ''Handler file not found. Aborting runUploadLambdaWithSamBuild'')],
                  Returns (Some Cancelled)))"
  using assms
  by (simp add: handlerCheck_def Let_def andThen_def tryCatch_def lift_def emit_def returns_def
      invoke_def)

lemma handlerCheck_trace:
  "builds (fst (handlerCheck w functionNode parentDir)) = []"
  "templates (fst (handlerCheck w functionNode parentDir)) = []"
  "packed (fst (handlerCheck w functionNode parentDir)) = []"
  "deployments (fst (handlerCheck w functionNode parentDir)) = []"
proof -
  consider (unsupported) e where
      "getLambdaFileNameFromHandler (getFamily w) (configuration functionNode) = Inl e"
    | (present) fileName where
      "getLambdaFileNameFromHandler (getFamily w) (configuration functionNode) = Inr fileName"
      "fileExists w (path_join w (fsPath parentDir) fileName)"
    | (absent) fileName where
      "getLambdaFileNameFromHandler (getFamily w) (configuration functionNode) = Inr fileName"
      "\<not> fileExists w (path_join w (fsPath parentDir) fileName)"
    by (cases "getLambdaFileNameFromHandler (getFamily w) (configuration functionNode)") auto
  then have "builds (fst (handlerCheck w functionNode parentDir)) = [] \<and>
    templates (fst (handlerCheck w functionNode parentDir)) = [] \<and>
    packed (fst (handlerCheck w functionNode parentDir)) = [] \<and>
    deployments (fst (handlerCheck w functionNode parentDir)) = []"
  proof cases
    case unsupported
    then show ?thesis by (simp add: handlerCheck_unsupported)
  next
    case present
    then show ?thesis by (simp add: handlerCheck_present)
  next
    case absent
    then show ?thesis by (simp add: handlerCheck_absent)
  qed
  then show
    "builds (fst (handlerCheck w functionNode parentDir)) = []"
    "templates (fst (handlerCheck w functionNode parentDir)) = []"
    "packed (fst (handlerCheck w functionNode parentDir)) = []"
    "deployments (fst (handlerCheck w functionNode parentDir)) = []"
    by simp_all
qed

lemma handlerCheck_outcome:
  "snd (handlerCheck w functionNode parentDir) = Returns None \<or>
   snd (handlerCheck w functionNode parentDir) = Returns (Some Cancelled)"
proof (cases "getLambdaFileNameFromHandler (getFamily w) (configuration functionNode)")
  case (Inl e)
  then show ?thesis by (simp add: handlerCheck_unsupported)
next
  case (Inr fileName)
  then show ?thesis
    by (cases "fileExists w (path_join w (fsPath parentDir) fileName)")
       (simp_all add: handlerCheck_present handlerCheck_absent)
qed

text \<open>A run of the command past the dialog: the handler check, then the build.\<close>

lemma runUploadLambdaWithSamBuild_selected:
  assumes "showOpenDialog w = Some [parentDir]"
  shows "runUploadLambdaWithSamBuild w functionNode =
           (if snd (handlerCheck w functionNode parentDir) = Returns None
            then (ShowOpenDialog # fst (handlerCheck w functionNode parentDir)
                    @ fst (buildAndUpload w functionNode parentDir),
                  snd (buildAndUpload w functionNode parentDir))
            else (ShowOpenDialog # fst (handlerCheck w functionNode parentDir),
                  Returns Cancelled))"
  using assms handlerCheck_outcome [of w functionNode parentDir]
  by (cases "handlerCheck w functionNode parentDir"; cases "buildAndUpload w functionNode parentDir")
     (auto simp add: runUploadLambdaWithSamBuild_def andThen_def invoke_def returns_def)

lemma runUploadLambdaWithSamBuild_not_selected:
  assumes "\<nexists>parentDir. showOpenDialog w = Some [parentDir]"
  shows "runUploadLambdaWithSamBuild w functionNode = ([ShowOpenDialog], Returns Cancelled)"
  using assms
  by (auto simp add: runUploadLambdaWithSamBuild_def andThen_def invoke_def returns_def
      split: option.splits list.splits)

section \<open>Claims\<close>

subsection \<open>The handler-to-filename resolver\<close>

text \<open>
  Claim C1. For a runtime of the Python or NodeJS family and a handler \<open>H\<close> with at
  least one dot, \<open>getLambdaFileNameFromHandler\<close> returns \<open>base.ext\<close>, where
  \<open>H = base.seg\<close> and \<open>seg\<close> has no dot (so \<open>seg\<close> is exactly the last
  dot-separated segment), \<open>base\<close> is the join with dots of the remaining segments, and
  \<open>ext\<close> is \<open>py\<close> for Python and \<open>js\<close> for NodeJS.
\<close>

theorem resolver_strips_last_segment:
  assumes "family (Runtime cfg) = Python \<or> family (Runtime cfg) = NodeJS"
    and "CHR ''.'' \<in> set (Handler cfg)"
  shows "\<exists>base seg.
           Handler cfg = base @ ''.'' @ seg \<and> CHR ''.'' \<notin> set seg \<and>
           base = js_join ''.'' (initial (js_split (CHR ''.'') (Handler cfg))) \<and>
           getLambdaFileNameFromHandler family cfg =
             Inr (base @ ''.'' @ (if family (Runtime cfg) = Python then ''py'' else ''js''))"
proof -
  let ?segs = "js_split (CHR ''.'') (Handler cfg)"
  let ?base = "js_join ''.'' (initial ?segs)"
  have split: "Handler cfg = ?base @ ''.'' @ last ?segs \<and> CHR ''.'' \<notin> set (last ?segs)"
    using js_split_last_segment [OF assms(2)] by simp
  have "getLambdaFileNameFromHandler family cfg =
          Inr (?base @ ''.'' @ (if family (Runtime cfg) = Python then ''py'' else ''js''))"
    using assms(1) by (auto simp: getLambdaFileNameFromHandler_def)
  with split show ?thesis by blast
qed

text \<open>
  The two examples of the claim: \<open>app.handler\<close> on a Python runtime gives
  \<open>app.py\<close>, and \<open>a.b.c.main\<close> on a NodeJS runtime gives \<open>a.b.c.js\<close>.
\<close>

theorem resolver_strips_last_segment_witness:
  "getLambdaFileNameFromHandler sampleFamily
     \<lparr>FunctionName = ''fn1'', FunctionArn = ''arn:fn1'', Runtime = ''python3.8'',
      Handler = ''app.handler''\<rparr> = Inr ''app.py''
   \<and> getLambdaFileNameFromHandler sampleFamily
     \<lparr>FunctionName = ''fn1'', FunctionArn = ''arn:fn1'', Runtime = ''nodejs12.x'',
      Handler = ''a.b.c.main''\<rparr> = Inr ''a.b.c.js''"
proof -
  let ?py = "\<lparr>FunctionName = ''fn1'', FunctionArn = ''arn:fn1'', Runtime = ''python3.8'',
      Handler = ''app.handler''\<rparr>"
  let ?js = "\<lparr>FunctionName = ''fn1'', FunctionArn = ''arn:fn1'', Runtime = ''nodejs12.x'',
      Handler = ''a.b.c.main''\<rparr>"
  have p1: "sampleFamily (Runtime ?py) = Python \<or> sampleFamily (Runtime ?py) = NodeJS"
    by (simp add: sampleFamily_def)
  have p2: "CHR ''.'' \<in> set (Handler ?py)" by simp
  obtain base seg where py:
    "Handler ?py = base @ ''.'' @ seg" "CHR ''.'' \<notin> set seg"
    "getLambdaFileNameFromHandler sampleFamily ?py =
       Inr (base @ ''.'' @ (if sampleFamily (Runtime ?py) = Python then ''py'' else ''js''))"
    using resolver_strips_last_segment [of sampleFamily ?py] p1 p2 by blast
  have "base @ [CHR ''.''] @ seg = ''app'' @ [CHR ''.''] @ ''handler''"
    using py(1) by simp
  then have "base = ''app''"
    using last_segment_unique [of base "CHR ''.''" seg "''app''" "''handler''"] py(2) by simp
  with py(3) have r1: "getLambdaFileNameFromHandler sampleFamily ?py = Inr ''app.py''"
    by (simp add: sampleFamily_def)
  have j1: "sampleFamily (Runtime ?js) = Python \<or> sampleFamily (Runtime ?js) = NodeJS"
    by (simp add: sampleFamily_def)
  have j2: "CHR ''.'' \<in> set (Handler ?js)" by simp
  obtain base' seg' where js:
    "Handler ?js = base' @ ''.'' @ seg'" "CHR ''.'' \<notin> set seg'"
    "getLambdaFileNameFromHandler sampleFamily ?js =
       Inr (base' @ ''.'' @ (if sampleFamily (Runtime ?js) = Python then ''py'' else ''js''))"
    using resolver_strips_last_segment [of sampleFamily ?js] j1 j2 by blast
  have "base' @ [CHR ''.''] @ seg' = ''a.b.c'' @ [CHR ''.''] @ ''main''"
    using js(1) by simp
  then have "base' = ''a.b.c''"
    using last_segment_unique [of base' "CHR ''.''" seg' "''a.b.c''" "''main''"] js(2) by simp
  with js(3) have r2: "getLambdaFileNameFromHandler sampleFamily ?js = Inr ''a.b.c.js''"
    by (simp add: sampleFamily_def)
  from r1 r2 show ?thesis by blast
qed

text \<open>
  Claim C2. For a runtime whose family is neither Python nor NodeJS the resolver throws
  an \<open>Error\<close> whose message ends with the runtime identifier; as the result is the
  \<open>Inl\<close> of the sum, no file name is returned.
\<close>

theorem resolver_rejects_unsupported_runtime:
  assumes "family (Runtime cfg) \<noteq> Python" and "family (Runtime cfg) \<noteq> NodeJS"
  shows "getLambdaFileNameFromHandler family cfg =
           Inl (Error (''Toolkit does not currently support imports for runtime: ''
                       @ Runtime cfg))"
  using assms by (cases "family (Runtime cfg)") (simp_all add: getLambdaFileNameFromHandler_def)

theorem resolver_rejects_unsupported_runtime_witness:
  "getLambdaFileNameFromHandler sampleFamily
     \<lparr>FunctionName = ''fn1'', FunctionArn = ''arn:fn1'', Runtime = ''ruby2.7'',
      Handler = ''app.handler''\<rparr>
   = Inl (Error ''Toolkit does not currently support imports for runtime: ruby2.7'')"
  using resolver_rejects_unsupported_runtime [of sampleFamily
     "\<lparr>FunctionName = ''fn1'', FunctionArn = ''arn:fn1'', Runtime = ''ruby2.7'',
      Handler = ''app.handler''\<rparr>"]
  by (simp add: sampleFamily_def)

text \<open>
  Claim C10. For a runtime of a supported family and a handler without a dot, the
  resolver does not fail: the one segment is dropped, the base is empty, and the result
  is a dot followed by the extension.
\<close>

theorem resolver_dotless_handler:
  assumes "family (Runtime cfg) = Python \<or> family (Runtime cfg) = NodeJS"
    and "CHR ''.'' \<notin> set (Handler cfg)"
  shows "getLambdaFileNameFromHandler family cfg =
           Inr (''.'' @ (if family (Runtime cfg) = Python then ''py'' else ''js''))"
  using assms
  by (auto simp: getLambdaFileNameFromHandler_def initial_def js_split_single)

theorem resolver_dotless_handler_witness:
  "getLambdaFileNameFromHandler sampleFamily
     \<lparr>FunctionName = ''fn1'', FunctionArn = ''arn:fn1'', Runtime = ''python3.8'',
      Handler = ''handler''\<rparr> = Inr ''.py''
   \<and> getLambdaFileNameFromHandler sampleFamily
     \<lparr>FunctionName = ''fn1'', FunctionArn = ''arn:fn1'', Runtime = ''nodejs12.x'',
      Handler = ''''\<rparr> = Inr ''.js''"
  using resolver_dotless_handler [of sampleFamily
     "\<lparr>FunctionName = ''fn1'', FunctionArn = ''arn:fn1'', Runtime = ''python3.8'',
      Handler = ''handler''\<rparr>"]
    resolver_dotless_handler [of sampleFamily
     "\<lparr>FunctionName = ''fn1'', FunctionArn = ''arn:fn1'', Runtime = ''nodejs12.x'',
      Handler = ''''\<rparr>"]
  by (simp add: sampleFamily_def)

subsection \<open>The import command\<close>

text \<open>
  Claim C3 says that a transport error of the download aborts the operation with an
  error, which the import then treats as a hard failure. The code does not do that for
  an error the request reports by its \<open>error\<close> event (a refused connection, say):
  the listener of line 158 throws inside the event loop, the promise of line 147 has no
  \<open>reject\<close> and is never resolved, and \<open>downloadAndUnzipLambda\<close> neither returns
  nor reaches its \<open>catch\<close> block. No error message is shown and no \<open>ImportError\<close>
  is thrown. The run below is the code at that input; the same holds for every request
  that emits no \<open>complete\<close> event (\<open>download_without_complete_never_settles\<close>).
\<close>

theorem download_error_event_never_settles:
  "downloadAndUnzipLambda
     (sampleWorld\<lparr>request_get := (\<lambda>url. RequestEmits [ErrorEvent ''connect ECONNREFUSED''])\<rparr>)
     sampleNode ''/ws/fn1/''
   = ([MakeTemporaryToolkitFolder, AddDisposableFolder ''/tmp/tk'', GetFunction ''arn:fn1'',
       ProgressReport 10, Log Debug (Plain ''Starting Lambda download...''),
       RequestGet (Some ''https://code''), CreateWriteStream ''/tmp/tk/function.zip'',
       UncaughtException (Error ''connect ECONNREFUSED'')],
      NeverSettles)"
  by (simp add: downloadAndUnzipLambda_def downloadPromise_def sampleWorld_def sampleNode_def
      samplePathJoin_def Let_def andThen_def tryCatch_def emit_def invoke_def returns_def throws_def)

text \<open>
  Claim C4 says that every failure of the download or of the extraction makes the
  import return \<open>Failed\<close>. The code returns \<open>Failed\<close> for the failures that reach
  the \<open>catch\<close> block of \<open>downloadAndUnzipLambda\<close> (\<open>rejected_import_fails\<close>,
  \<open>downloadAndUnzipLambda_rejections\<close>), and it never returns \<open>Succeeded\<close> after a
  failure (\<open>failed_import_never_succeeds\<close>). But an extraction error passed to the
  callback of line 167 from the event loop, like an \<open>error\<close> event of the download,
  is thrown where no \<open>catch\<close> is: \<open>runImportLambda\<close> never returns, so its result is
  not \<open>Failed\<close>. The two runs below are the code at those inputs.
\<close>

theorem extraction_error_import_never_fails:
  "snd (runImportLambda
     (sampleWorld\<lparr>admZipExtract := (\<lambda>file dir. ZipCallback FromEventLoop (Some ''Unable to write''))\<rparr>)
     sampleNode) = NeverSettles
   \<and> snd (runImportLambda
     (sampleWorld\<lparr>request_get := (\<lambda>url. RequestEmits [ErrorEvent ''connect ECONNREFUSED''])\<rparr>)
     sampleNode) = NeverSettles"
  by (simp add: runImportLambda_def importTask_def downloadAndUnzipLambda_def downloadPromise_def
      extractPromise_def getLambdaFileNameFromHandler_def sampleFamily_def initial_def
      sampleWorld_def sampleNode_def samplePathJoin_def Let_def
      andThen_def tryCatch_def emit_def invoke_def returns_def throws_def lift_def)

text \<open>
  Claim C5. In a run of the import that is not cancelled, in which the file name
  resolves and \<open>downloadAndUnzipLambda\<close> returns (the download and the extraction
  succeeded), \<open>runImportLambda\<close> returns \<open>Succeeded\<close> whatever \<open>openLambdaFile\<close>
  and \<open>addLaunchConfigEntry\<close> do: nothing is assumed of them, so they may throw. What
  they throw is never an \<open>ImportError\<close> (\<open>openLambdaFile_outcome\<close>,
  \<open>addLaunchConfigEntry_outcome\<close>).
\<close>

theorem post_import_failure_keeps_success:
  assumes "workspaceFolders w \<noteq> []"
    and "promptUserForLocation w = Some selectedUri"
    and "importLocation =
           path_join w (path_join w (fsPath selectedUri) (FunctionName (configuration functionNode)))
             (path_sep w)"
    and "pathExists w importLocation \<longrightarrow>
           showConfirmationMessage w
             (Localized ''AWS.lambda.import.prompt''
                [FunctionName (configuration functionNode), asRelativePath w importLocation])"
    and "getLambdaFileNameFromHandler (getFamily w) (configuration functionNode) = Inr fileName"
    and "snd (downloadAndUnzipLambda w functionNode importLocation) = Returns ()"
  shows "snd (runImportLambda w functionNode) = Returns Succeeded"
proof -
  have task: "snd (importTask w functionNode importLocation wf) = Returns Succeeded" for wf
    using assms(5,6)
      openLambdaFile_outcome [of w "path_join w importLocation fileName"]
      addLaunchConfigEntry_outcome [of w "path_join w importLocation fileName" functionNode wf]
    by (auto simp add: importTask_def Let_def snd_andThen snd_tryCatch
        split: outcome.splits exn.splits)
  show ?thesis
    using assms(1-4) task
    by (auto simp add: runImportLambda_def Let_def snd_andThen split: outcome.splits)
qed

text \<open>
  A run in which the handler file is missing after the extraction: \<open>openLambdaFile\<close>
  throws, and the import still returns \<open>Succeeded\<close>.
\<close>

theorem post_import_failure_keeps_success_witness:
  "snd (openLambdaFile (sampleWorld\<lparr>fileExists := (\<lambda>p. False)\<rparr>) ''/ws/fn1/app.py'')
     = Throws (Error [])
   \<and> snd (runImportLambda (sampleWorld\<lparr>fileExists := (\<lambda>p. False)\<rparr>) sampleNode)
     = Returns Succeeded"
proof -
  let ?w = "sampleWorld\<lparr>fileExists := (\<lambda>p. False)\<rparr>"
  have opened: "snd (openLambdaFile ?w ''/ws/fn1/app.py'') = Throws (Error [])"
    by (simp add: openLambdaFile_def Let_def snd_andThen)
  have h1: "workspaceFolders ?w \<noteq> []" by (simp add: sampleWorld_def)
  have h2: "promptUserForLocation ?w = Some \<lparr>ref = 1, fsPath = ''/ws''\<rparr>"
    by (simp add: sampleWorld_def)
  have h3: "''/ws/fn1/'' =
      path_join ?w (path_join ?w (fsPath \<lparr>ref = 1, fsPath = ''/ws''\<rparr>)
        (FunctionName (configuration sampleNode))) (path_sep ?w)"
    by (simp add: sampleWorld_def sampleNode_def samplePathJoin_def)
  have h4: "pathExists ?w ''/ws/fn1/'' \<longrightarrow>
      showConfirmationMessage ?w
        (Localized ''AWS.lambda.import.prompt''
           [FunctionName (configuration sampleNode), asRelativePath ?w ''/ws/fn1/''])"
    by (simp add: sampleWorld_def)
  have h5: "getLambdaFileNameFromHandler (getFamily ?w) (configuration sampleNode) = Inr ''app.py''"
    by (simp add: getLambdaFileNameFromHandler_def sampleWorld_def sampleNode_def
        sampleFamily_def initial_def)
  have h6: "snd (downloadAndUnzipLambda ?w sampleNode ''/ws/fn1/'') = Returns ()"
    by (simp add: downloadAndUnzipLambda_def downloadPromise_def extractPromise_def
        sampleWorld_def sampleNode_def samplePathJoin_def Let_def
        andThen_def tryCatch_def emit_def invoke_def returns_def throws_def)
  from post_import_failure_keeps_success [OF h1 h2 h3 h4 h5 h6] opened
  show ?thesis by simp
qed

text \<open>
  Claim C9. In every run of the import, the progress shown after each report (the
  running sums of the increments, from 0) never decreases (it increases with each
  report), and the increments sum to at most 100. The increments are a prefix of
  10, 70, 10.
\<close>

theorem import_progress_within_budget:
  "sorted (0 # cumulative 0 (progressIncrements (fst (runImportLambda w functionNode))))
   \<and> sorted_wrt (<) (0 # cumulative 0 (progressIncrements (fst (runImportLambda w functionNode))))
   \<and> sum_list (progressIncrements (fst (runImportLambda w functionNode))) \<le> 100"
  using runImportLambda_increments [of w functionNode] by auto

subsection \<open>The upload command\<close>

text \<open>
  Claim C6. In a run of \<open>runUploadLambdaWithSamBuild\<close> in which the build is invoked
  and fails (\<open>SamCliBuildInvocation.execute\<close> rejects), \<open>updateFunctionCode\<close> is
  never called, nothing is packed, and the command returns \<open>Failed\<close>.
\<close>

theorem failed_build_never_deploys:
  assumes "b \<in> set (builds (fst (runUploadLambdaWithSamBuild w functionNode)))"
    and "samCliBuildExecute w b = Inl msg"
  shows "snd (runUploadLambdaWithSamBuild w functionNode) = Returns Failed
         \<and> deployments (fst (runUploadLambdaWithSamBuild w functionNode)) = []
         \<and> packed (fst (runUploadLambdaWithSamBuild w functionNode)) = []"
proof -
  obtain parentDir where sel: "showOpenDialog w = Some [parentDir]"
    using assms(1) runUploadLambdaWithSamBuild_not_selected [of w functionNode]
    by (cases "\<exists>parentDir. showOpenDialog w = Some [parentDir]") auto
  note run = runUploadLambdaWithSamBuild_selected [OF sel, of functionNode]
  have checked: "snd (handlerCheck w functionNode parentDir) = Returns None"
    using assms(1) run by (auto simp: handlerCheck_trace split: if_splits)
  with assms(1) run have inb: "b \<in> set (builds (fst (buildAndUpload w functionNode parentDir)))"
    by (simp add: handlerCheck_trace)
  then obtain tempDir where tmp: "makeTemporaryToolkitFolder w = Inr tempDir"
    and gen: "generateTemplate w (templateOf w functionNode parentDir tempDir) = Inr ()"
    and b: "b = buildOf w parentDir tempDir"
    using buildAndUpload_builds [of w functionNode parentDir] by auto
  from buildAndUpload_build_failed [OF tmp gen assms(2) [unfolded b]] run checked
  show ?thesis by (simp add: handlerCheck_trace)
qed

theorem failed_build_never_deploys_witness:
  "fst (runUploadLambdaWithSamBuild
          (sampleWorld\<lparr>samCliBuildExecute := (\<lambda>b. Inl ''sam build exited with code 1'')\<rparr>)
          sampleNode)
   = [ShowOpenDialog, MakeTemporaryToolkitFolder, AddDisposableFolder ''/tmp/tk'',
      GenerateTemplate
        \<lparr>functionHandler = ''app.handler'', resourceName = ''tempResource'',
         runtime = ''python3.8'', codeUri = ''/src'',
         generatedPath = ''/tmp/tk/template.yaml''\<rparr>,
      SamCliBuild
        \<lparr>buildDir = ''/tmp/tk/output'', templatePath = ''/tmp/tk/template.yaml'',
         skipPullImage = True, useContainer = False, baseDir = ''/src''\<rparr>,
      ShowErrorMessage (Plain ''sam build exited with code 1''),
      Log Err (Formatted ''runUploadLambdaWithSamBuild failed: ''
                 [''sam build exited with code 1''])]
   \<and> snd (runUploadLambdaWithSamBuild
          (sampleWorld\<lparr>samCliBuildExecute := (\<lambda>b. Inl ''sam build exited with code 1'')\<rparr>)
          sampleNode) = Returns Failed
   \<and> deployments (fst (runUploadLambdaWithSamBuild
          (sampleWorld\<lparr>samCliBuildExecute := (\<lambda>b. Inl ''sam build exited with code 1'')\<rparr>)
          sampleNode)) = []"
proof -
  let ?w = "sampleWorld\<lparr>samCliBuildExecute := (\<lambda>b. Inl ''sam build exited with code 1'')\<rparr>"
  let ?b = "\<lparr>buildDir = ''/tmp/tk/output'', templatePath = ''/tmp/tk/template.yaml'',
         skipPullImage = True, useContainer = False, baseDir = ''/src''\<rparr>"
  have trace: "fst (runUploadLambdaWithSamBuild ?w sampleNode)
   = [ShowOpenDialog, MakeTemporaryToolkitFolder, AddDisposableFolder ''/tmp/tk'',
      GenerateTemplate
        \<lparr>functionHandler = ''app.handler'', resourceName = ''tempResource'',
         runtime = ''python3.8'', codeUri = ''/src'',
         generatedPath = ''/tmp/tk/template.yaml''\<rparr>,
      SamCliBuild ?b,
      ShowErrorMessage (Plain ''sam build exited with code 1''),
      Log Err (Formatted ''runUploadLambdaWithSamBuild failed: ''
                 [''sam build exited with code 1''])]"
    by (simp add: runUploadLambdaWithSamBuild_def handlerCheck_def buildAndUpload_def
        getLambdaFileNameFromHandler_def sampleFamily_def initial_def
        sampleWorld_def sampleNode_def samplePathJoin_def Let_def
        andThen_def tryCatch_def emit_def invoke_def returns_def throws_def lift_def)
  have h1: "?b \<in> set (builds (fst (runUploadLambdaWithSamBuild ?w sampleNode)))"
    by (simp add: trace)
  have h2: "samCliBuildExecute ?w ?b = Inl ''sam build exited with code 1''"
    by simp
  from failed_build_never_deploys [OF h1 h2] trace show ?thesis by simp
qed

text \<open>
  Claim C7. In a run of \<open>runUploadLambdaWithSamBuild\<close> in which the build is invoked
  and succeeds, exactly one directory is packed: the join of the build directory given
  to the build with the resource name given to the template the build read. It is not
  the build directory itself wherever \<open>path.join\<close> of a directory and that name
  differs from the directory.
\<close>

theorem packs_resource_subdirectory:
  assumes "b \<in> set (builds (fst (runUploadLambdaWithSamBuild w functionNode)))"
    and "samCliBuildExecute w b = Inr ()"
  shows "\<exists>g. templates (fst (runUploadLambdaWithSamBuild w functionNode)) = [g]
             \<and> generatedPath g = templatePath b
             \<and> packed (fst (runUploadLambdaWithSamBuild w functionNode))
                 = [path_join w (buildDir b) (resourceName g)]
             \<and> (path_join w (buildDir b) (resourceName g) \<noteq> buildDir b \<longrightarrow>
                  buildDir b \<notin> set (packed (fst (runUploadLambdaWithSamBuild w functionNode))))"
proof -
  obtain parentDir where sel: "showOpenDialog w = Some [parentDir]"
    using assms(1) runUploadLambdaWithSamBuild_not_selected [of w functionNode]
    by (cases "\<exists>parentDir. showOpenDialog w = Some [parentDir]") auto
  note run = runUploadLambdaWithSamBuild_selected [OF sel, of functionNode]
  have checked: "snd (handlerCheck w functionNode parentDir) = Returns None"
    using assms(1) run by (auto simp: handlerCheck_trace split: if_splits)
  with assms(1) run have inb: "b \<in> set (builds (fst (buildAndUpload w functionNode parentDir)))"
    by (simp add: handlerCheck_trace)
  then obtain tempDir where tmp: "makeTemporaryToolkitFolder w = Inr tempDir"
    and gen: "generateTemplate w (templateOf w functionNode parentDir tempDir) = Inr ()"
    and b: "b = buildOf w parentDir tempDir"
    using buildAndUpload_builds [of w functionNode parentDir] by auto
  let ?g = "templateOf w functionNode parentDir tempDir"
  from buildAndUpload_built [OF tmp gen assms(2) [unfolded b]] run checked
  have "templates (fst (runUploadLambdaWithSamBuild w functionNode)) = [?g]"
    and "packed (fst (runUploadLambdaWithSamBuild w functionNode))
           = [path_join w (path_join w tempDir ''output'') ''tempResource'']"
    by (simp_all add: handlerCheck_trace zipAndUploadDirectory_trace)
  moreover have "generatedPath ?g = templatePath b" "resourceName ?g = ''tempResource''"
    "buildDir b = path_join w tempDir ''output''"
    by (simp_all add: b templateOf_def buildOf_def)
  ultimately show ?thesis by auto
qed

text \<open>
  In the sample run the build directory is \<open>/tmp/tk/output\<close> and the packed
  directory is \<open>/tmp/tk/output/tempResource\<close>.
\<close>

theorem packs_resource_subdirectory_witness:
  "builds (fst (runUploadLambdaWithSamBuild sampleWorld sampleNode))
     = [\<lparr>buildDir = ''/tmp/tk/output'', templatePath = ''/tmp/tk/template.yaml'',
         skipPullImage = True, useContainer = False, baseDir = ''/src''\<rparr>]
   \<and> packed (fst (runUploadLambdaWithSamBuild sampleWorld sampleNode))
     = [''/tmp/tk/output/tempResource'']
   \<and> snd (runUploadLambdaWithSamBuild sampleWorld sampleNode) = Returns Succeeded"
proof -
  let ?b = "\<lparr>buildDir = ''/tmp/tk/output'', templatePath = ''/tmp/tk/template.yaml'',
         skipPullImage = True, useContainer = False, baseDir = ''/src''\<rparr>"
  have run: "runUploadLambdaWithSamBuild sampleWorld sampleNode
   = ([ShowOpenDialog, MakeTemporaryToolkitFolder, AddDisposableFolder ''/tmp/tk'',
      GenerateTemplate
        \<lparr>functionHandler = ''app.handler'', resourceName = ''tempResource'',
         runtime = ''python3.8'', codeUri = ''/src'',
         generatedPath = ''/tmp/tk/template.yaml''\<rparr>,
      SamCliBuild ?b, AddLocalFolder ''/tmp/tk/output/tempResource'',
      UpdateFunctionCode ''fn1'' ''PK''], Returns Succeeded)"
    by (simp add: runUploadLambdaWithSamBuild_def handlerCheck_def buildAndUpload_def
        zipAndUploadDirectory_def uploadZipBuffer_def
        getLambdaFileNameFromHandler_def sampleFamily_def initial_def
        sampleWorld_def sampleNode_def samplePathJoin_def Let_def
        andThen_def tryCatch_def emit_def invoke_def returns_def throws_def lift_def)
  have h1: "?b \<in> set (builds (fst (runUploadLambdaWithSamBuild sampleWorld sampleNode)))"
    by (simp add: run)
  have h2: "samCliBuildExecute sampleWorld ?b = Inr ()"
    by (simp add: sampleWorld_def)
  from packs_resource_subdirectory [OF h1 h2]
  obtain g where g: "templates (fst (runUploadLambdaWithSamBuild sampleWorld sampleNode)) = [g]"
    and p: "packed (fst (runUploadLambdaWithSamBuild sampleWorld sampleNode))
           = [path_join sampleWorld (buildDir ?b) (resourceName g)]"
    by blast
  from g have "resourceName g = ''tempResource''"
    by (auto simp add: run)
  moreover have "path_join sampleWorld ''/tmp/tk/output'' ''tempResource''
      = ''/tmp/tk/output/tempResource''"
    by (simp add: sampleWorld_def samplePathJoin_def)
  ultimately have "packed (fst (runUploadLambdaWithSamBuild sampleWorld sampleNode))
     = [''/tmp/tk/output/tempResource'']"
    using p by simp
  with run show ?thesis by simp
qed

text \<open>
  Claim C8. In a run of \<open>runUploadLambdaWithSamBuild\<close> past the folder dialog: if the
  handler file name resolves and the file is absent from the selected directory, the
  confirmation prompt naming that file is shown once, before any build; if the user
  confirms, the command goes on to the build, and otherwise it returns \<open>Cancelled\<close>
  with no build and no deployment. If the resolution fails (an unsupported runtime),
  no prompt is shown: the command logs one line and goes on to the build, and does not
  return \<open>Cancelled\<close>.
\<close>

theorem handler_check_before_build:
  assumes "showOpenDialog w = Some [parentDir]"
  shows
    "(\<forall>fileName.
        getLambdaFileNameFromHandler (getFamily w) (configuration functionNode) = Inr fileName
        \<and> \<not> fileExists w (path_join w (fsPath parentDir) fileName) \<longrightarrow>
          confirmations (beforeBuild (fst (runUploadLambdaWithSamBuild w functionNode)))
            = [handlerPrompt functionNode (path_join w (fsPath parentDir) fileName)]
          \<and> (if showConfirmationMessage w
                   (handlerPrompt functionNode (path_join w (fsPath parentDir) fileName))
              then snd (runUploadLambdaWithSamBuild w functionNode)
                     = snd (buildAndUpload w functionNode parentDir)
              else snd (runUploadLambdaWithSamBuild w functionNode) = Returns Cancelled
                   \<and> builds (fst (runUploadLambdaWithSamBuild w functionNode)) = []
                   \<and> deployments (fst (runUploadLambdaWithSamBuild w functionNode)) = []))
     \<and> (\<forall>e.
        getLambdaFileNameFromHandler (getFamily w) (configuration functionNode) = Inl e \<longrightarrow>
          runUploadLambdaWithSamBuild w functionNode
            = ([ShowOpenDialog,
                Log Info (Plain
                  ''Attempting to build a runtime not supported by Toolkit. Ignoring handler check.'')]
               @ fst (buildAndUpload w functionNode parentDir),
               snd (buildAndUpload w functionNode parentDir))
          \<and> confirmations (fst (runUploadLambdaWithSamBuild w functionNode)) = []
          \<and> snd (runUploadLambdaWithSamBuild w functionNode) \<noteq> Returns Cancelled)"
proof (intro conjI allI impI)
  fix fileName
  assume a: "getLambdaFileNameFromHandler (getFamily w) (configuration functionNode) = Inr fileName
        \<and> \<not> fileExists w (path_join w (fsPath parentDir) fileName)"
  let ?prompt = "handlerPrompt functionNode (path_join w (fsPath parentDir) fileName)"
  note run = runUploadLambdaWithSamBuild_selected [OF assms, of functionNode]
  have hc: "handlerCheck w functionNode parentDir =
           (if showConfirmationMessage w ?prompt
            then ([ShowConfirmationMessage ?prompt], Returns None)
            else ([ShowConfirmationMessage ?prompt,
                   Log Info (Plain
                     ''Handler file not found. Aborting runUploadLambdaWithSamBuild'')],
                  Returns (Some Cancelled)))"
    using a by (simp add: handlerCheck_absent)
  show "confirmations (beforeBuild (fst (runUploadLambdaWithSamBuild w functionNode))) = [?prompt]"
  proof (cases "showConfirmationMessage w ?prompt")
    case True
    with run hc have "fst (runUploadLambdaWithSamBuild w functionNode)
        = [ShowOpenDialog, ShowConfirmationMessage ?prompt]
          @ fst (buildAndUpload w functionNode parentDir)"
      by simp
    then show ?thesis
      by (simp add: beforeBuild_prefix beforeBuild_def confirmations_takeWhile
          buildAndUpload_confirmations)
  next
    case False
    with run hc show ?thesis by (simp add: beforeBuild_def)
  qed
  show "if showConfirmationMessage w ?prompt
        then snd (runUploadLambdaWithSamBuild w functionNode)
               = snd (buildAndUpload w functionNode parentDir)
        else snd (runUploadLambdaWithSamBuild w functionNode) = Returns Cancelled
             \<and> builds (fst (runUploadLambdaWithSamBuild w functionNode)) = []
             \<and> deployments (fst (runUploadLambdaWithSamBuild w functionNode)) = []"
    using run hc by simp
next
  fix e
  assume a: "getLambdaFileNameFromHandler (getFamily w) (configuration functionNode) = Inl e"
  note run = runUploadLambdaWithSamBuild_selected [OF assms, of functionNode]
  note hc = handlerCheck_unsupported [OF a, of parentDir]
  show r: "runUploadLambdaWithSamBuild w functionNode
            = ([ShowOpenDialog,
                Log Info (Plain
                  ''Attempting to build a runtime not supported by Toolkit. Ignoring handler check.'')]
               @ fst (buildAndUpload w functionNode parentDir),
               snd (buildAndUpload w functionNode parentDir))"
    using run hc by simp
  show "confirmations (fst (runUploadLambdaWithSamBuild w functionNode)) = []"
    by (simp add: r buildAndUpload_confirmations)
  show "snd (runUploadLambdaWithSamBuild w functionNode) \<noteq> Returns Cancelled"
    using buildAndUpload_outcome [of w functionNode parentDir] by (auto simp add: r)
qed

text \<open>
  Two runs: the handler file is absent and the user declines; and a runtime that is not
  supported, where the build and the upload go ahead.
\<close>

theorem handler_check_before_build_witness:
  "confirmations (beforeBuild (fst (runUploadLambdaWithSamBuild
       (sampleWorld\<lparr>fileExists := (\<lambda>p. False), showConfirmationMessage := (\<lambda>m. False)\<rparr>)
       sampleNode)))
     = [Localized ''AWS.lambda.upload.handlerNotFound'' [''app.handler'', ''/src/app.py'']]
   \<and> snd (runUploadLambdaWithSamBuild
       (sampleWorld\<lparr>fileExists := (\<lambda>p. False), showConfirmationMessage := (\<lambda>m. False)\<rparr>)
       sampleNode) = Returns Cancelled
   \<and> builds (fst (runUploadLambdaWithSamBuild
       (sampleWorld\<lparr>fileExists := (\<lambda>p. False), showConfirmationMessage := (\<lambda>m. False)\<rparr>)
       sampleNode)) = []
   \<and> confirmations (fst (runUploadLambdaWithSamBuild sampleWorld
        (sampleNode\<lparr>configuration := (configuration sampleNode)\<lparr>Runtime := ''ruby2.7''\<rparr>\<rparr>))) = []
   \<and> snd (runUploadLambdaWithSamBuild sampleWorld
        (sampleNode\<lparr>configuration := (configuration sampleNode)\<lparr>Runtime := ''ruby2.7''\<rparr>\<rparr>))
       = Returns Succeeded"
proof -
  let ?w = "sampleWorld\<lparr>fileExists := (\<lambda>p. False), showConfirmationMessage := (\<lambda>m. False)\<rparr>"
  let ?dir = "\<lparr>ref = 2, fsPath = ''/src''\<rparr>"
  let ?ruby = "sampleNode\<lparr>configuration := (configuration sampleNode)\<lparr>Runtime := ''ruby2.7''\<rparr>\<rparr>"
  have sel': "showOpenDialog ?w = Some [?dir]"
    by (simp add: sampleWorld_def)
  have resolved: "getLambdaFileNameFromHandler (getFamily ?w) (configuration sampleNode)
      = Inr ''app.py''"
    by (simp add: getLambdaFileNameFromHandler_def sampleFamily_def initial_def
        sampleWorld_def sampleNode_def)
  have absent: "\<not> fileExists ?w (path_join ?w (fsPath ?dir) ''app.py'')"
    by simp
  have prompt: "handlerPrompt sampleNode (path_join ?w (fsPath ?dir) ''app.py'')
      = Localized ''AWS.lambda.upload.handlerNotFound'' [''app.handler'', ''/src/app.py'']"
    by (simp add: handlerPrompt_def sampleWorld_def sampleNode_def samplePathJoin_def)
  have declines: "\<not> showConfirmationMessage ?w
      (handlerPrompt sampleNode (path_join ?w (fsPath ?dir) ''app.py''))"
    by simp
  from handler_check_before_build [OF sel', of sampleNode] resolved absent
  have "confirmations (beforeBuild (fst (runUploadLambdaWithSamBuild ?w sampleNode)))
            = [handlerPrompt sampleNode (path_join ?w (fsPath ?dir) ''app.py'')]
          \<and> (if showConfirmationMessage ?w
                   (handlerPrompt sampleNode (path_join ?w (fsPath ?dir) ''app.py''))
              then snd (runUploadLambdaWithSamBuild ?w sampleNode)
                     = snd (buildAndUpload ?w sampleNode ?dir)
              else snd (runUploadLambdaWithSamBuild ?w sampleNode) = Returns Cancelled
                   \<and> builds (fst (runUploadLambdaWithSamBuild ?w sampleNode)) = []
                   \<and> deployments (fst (runUploadLambdaWithSamBuild ?w sampleNode)) = [])"
    by blast
  with declines prompt
  have declined:
    "confirmations (beforeBuild (fst (runUploadLambdaWithSamBuild ?w sampleNode)))
       = [Localized ''AWS.lambda.upload.handlerNotFound'' [''app.handler'', ''/src/app.py'']]"
    "snd (runUploadLambdaWithSamBuild ?w sampleNode) = Returns Cancelled"
    "builds (fst (runUploadLambdaWithSamBuild ?w sampleNode)) = []"
    by simp_all
  have sel: "showOpenDialog sampleWorld = Some [?dir]"
    by (simp add: sampleWorld_def)
  have unsupported: "getLambdaFileNameFromHandler (getFamily sampleWorld) (configuration ?ruby)
      = Inl (Error ''Toolkit does not currently support imports for runtime: ruby2.7'')"
    by (simp add: getLambdaFileNameFromHandler_def sampleFamily_def sampleWorld_def sampleNode_def)
  have built: "snd (buildAndUpload sampleWorld ?ruby ?dir) = Returns Succeeded"
    by (simp add: buildAndUpload_def zipAndUploadDirectory_def uploadZipBuffer_def
        sampleWorld_def sampleNode_def samplePathJoin_def Let_def
        andThen_def tryCatch_def emit_def invoke_def returns_def throws_def lift_def)
  from handler_check_before_build [OF sel, of ?ruby] unsupported
  have "runUploadLambdaWithSamBuild sampleWorld ?ruby
            = ([ShowOpenDialog,
                Log Info (Plain
                  ''Attempting to build a runtime not supported by Toolkit. Ignoring handler check.'')]
               @ fst (buildAndUpload sampleWorld ?ruby ?dir),
               snd (buildAndUpload sampleWorld ?ruby ?dir))"
    and "confirmations (fst (runUploadLambdaWithSamBuild sampleWorld ?ruby)) = []"
    by blast+
  with built declined show ?thesis by simp
qed

end
